theory Spec2Isabelle
  imports Complex_Main "HOL-Library.Sublist" "HOL-Library.Multiset"
begin

chapter \<open>The program\<close>

section \<open>Domain model (internal/domain/model)\<close>

text \<open>
  \<open>LLMProvider\<close> is a Go string type; its six constants are kept as strings, since the
  handlers cast arbitrary request strings into it.
\<close>

type_synonym LLMProvider = string

abbreviation LLMProviderOpenAI :: LLMProvider where "LLMProviderOpenAI \<equiv> ''openai''"
abbreviation LLMProviderDeepSeek :: LLMProvider where "LLMProviderDeepSeek \<equiv> ''deepseek''"
abbreviation LLMProviderAnthropic :: LLMProvider where "LLMProviderAnthropic \<equiv> ''anthropic''"
abbreviation LLMProviderQwen :: LLMProvider where "LLMProviderQwen \<equiv> ''qwen''"
abbreviation LLMProviderErnie :: LLMProvider where "LLMProviderErnie \<equiv> ''ernie''"
abbreviation LLMProviderChatGLM :: LLMProvider where "LLMProviderChatGLM \<equiv> ''chatglm''"

text \<open>
  Times are instants on an integer clock (\<open>time.Time\<close> read as nanoseconds); every
  \<open>time.Now()\<close> of the source is an argument \<open>now\<close> of the modelled function. Costs are
  \<open>float64\<close> in the source and are read here as real numbers (no rounding, no NaN).
  JSON payloads are kept as strings.
\<close>

type_synonym Time = int

text \<open>A \<open>datatypes.JSON\<close> column holds encoded JSON; the model keeps the value that was
  encoded. \<open>JNull\<close> is also the unset column.\<close>

datatype json =
  JNull
  | JBool bool
  | JInt int
  | JNum real
  | JStr string
  | JArr "json list"
  | JObj "(string \<times> json) list"

datatype TraceStatus =
  TraceStatusRunning | TraceStatusCompleted | TraceStatusFailed | TraceStatusError

record Trace =
  trace_ID :: string
  trace_SessionID :: string
  trace_AgentName :: string
  trace_Status :: TraceStatus
  trace_StartedAt :: Time
  trace_EndedAt :: "Time option"
  trace_CostTokens :: int
  trace_CostAPI :: real
  trace_Metadata :: json
  trace_CreatedAt :: Time

record ExecutionStep =
  step_ID :: string
  step_TraceID :: string
  step_Sequence :: int
  step_StepType :: string
  step_Input :: json
  step_Output :: json
  step_CostTokens :: int
  step_CostAPI :: real
  step_LatencyMs :: int
  step_Snapshot :: json
  step_CreatedAt :: Time
  step_UpdatedAt :: Time

record Snapshot =
  snap_Stage :: string
  snap_Timestamp :: Time
  snap_Input :: json
  snap_Output :: json
  snap_State :: json
  snap_Context :: json

record Budget =
  budget_TotalTokens :: int
  budget_UsedTokens :: int
  budget_TotalCost :: real
  budget_UsedCost :: real

record Session =
  sess_ID :: string
  sess_UserID :: string
  sess_Status :: string
  sess_Budget :: Budget
  sess_CreatedAt :: Time
  sess_UpdatedAt :: Time

record Message =
  msg_ID :: string
  msg_SessionID :: string
  msg_Role :: string
  msg_Content :: string
  msg_Tokens :: int
  msg_CreatedAt :: Time

record LLMConfig =
  cfg_Provider :: LLMProvider
  cfg_APIKey :: string
  cfg_Model :: string
  cfg_BaseURL :: string
  cfg_Temperature :: real
  cfg_MaxTokens :: int

text \<open>Go's \<open>int\<close> is a 64-bit two's complement integer: where the program adds two of
  them, the sum wraps.\<close>

definition wrap64 :: "int \<Rightarrow> int" where
  "wrap64 x = (x + 2 ^ 63) mod 2 ^ 64 - 2 ^ 63"

text \<open>A function that may panic returns \<open>Panic\<close> or its value.\<close>

datatype 'a outcome = Panic | Return 'a

text \<open>Go errors: the sentinel \<open>context.Canceled\<close>, a storage error (\<open>RecordNotFound\<close> when
  \<open>First\<close> finds no row), a gRPC status error with its code, a plain message
  (\<open>fmt.Errorf\<close> without \<open>%w\<close>) and a wrapped error (\<open>fmt.Errorf("...: %w", err)\<close>).\<close>

datatype grpc_code = Canceled | OtherCode

datatype go_error =
  ContextCanceled
  | DBError
  | RecordNotFound
  | GrpcStatus grpc_code string
  | Errorf string
  | Wrapf string go_error

section \<open>Repositories (internal/infrastructure/repository)\<close>

text \<open>
  The relational store is a record of tables, each a list of rows in insertion order,
  together with the log of repository calls made so far. Whether the storage engine
  fails a call is not decided by the program: \<open>flt k\<close> says that the call number \<open>k\<close>
  (counting from 0) returns an error and writes nothing.
\<close>

datatype repo_call =
  TraceCreate string
  | TraceUpdateStatus string TraceStatus Time
  | TraceUpdateCost string int real
  | TraceGetBySessionID string
  | StepCreate ExecutionStep
  | StepGetByTraceID string
  | SessionGet string
  | SessionUpdateBudget string int real
  | MessageCreate Message

record db =
  db_sessions :: "Session list"
  db_messages :: "Message list"
  db_traces :: "Trace list"
  db_steps :: "ExecutionStep list"
  db_calls :: "repo_call list"

definition called :: "repo_call \<Rightarrow> db \<Rightarrow> db" where
  "called c d = d\<lparr>db_calls := db_calls d @ [c]\<rparr>"

definition faulty :: "(nat \<Rightarrow> bool) \<Rightarrow> db \<Rightarrow> bool" where
  "faulty flt d = flt (length (db_calls d))"

text \<open>\<open>traceRepository.Create\<close>: insert; \<open>id\<close> is the primary key.\<close>

definition trace_Create :: "(nat \<Rightarrow> bool) \<Rightarrow> db \<Rightarrow> Trace \<Rightarrow> go_error option \<times> db" where
  "trace_Create flt d tr =
     (if faulty flt d \<or> trace_ID tr \<in> set (map trace_ID (db_traces d))
      then (Some DBError, called (TraceCreate (trace_ID tr)) d)
      else (None, called (TraceCreate (trace_ID tr)) (d\<lparr>db_traces := db_traces d @ [tr]\<rparr>)))"

text \<open>\<open>traceRepository.UpdateStatus\<close>: \<open>UPDATE traces SET status, ended_at WHERE id\<close>; no
  row matching is not an error.\<close>

definition trace_UpdateStatus ::
  "(nat \<Rightarrow> bool) \<Rightarrow> db \<Rightarrow> string \<Rightarrow> TraceStatus \<Rightarrow> Time \<Rightarrow> go_error option \<times> db" where
  "trace_UpdateStatus flt d traceID status endedAt =
     (if faulty flt d then (Some DBError, called (TraceUpdateStatus traceID status endedAt) d)
      else (None, called (TraceUpdateStatus traceID status endedAt)
        (d\<lparr>db_traces := map (\<lambda>tr. if trace_ID tr = traceID
                 then tr\<lparr>trace_Status := status, trace_EndedAt := Some endedAt\<rparr> else tr)
               (db_traces d)\<rparr>)))"

text \<open>\<open>traceRepository.UpdateCost\<close>: one SQL statement adding to both cost columns.\<close>

definition trace_UpdateCost ::
  "(nat \<Rightarrow> bool) \<Rightarrow> db \<Rightarrow> string \<Rightarrow> int \<Rightarrow> real \<Rightarrow> go_error option \<times> db" where
  "trace_UpdateCost flt d traceID tokens apiCost =
     (if faulty flt d then (Some DBError, called (TraceUpdateCost traceID tokens apiCost) d)
      else (None, called (TraceUpdateCost traceID tokens apiCost)
        (d\<lparr>db_traces := map (\<lambda>tr. if trace_ID tr = traceID
                 then tr\<lparr>trace_CostTokens := trace_CostTokens tr + tokens,
                         trace_CostAPI := trace_CostAPI tr + apiCost\<rparr> else tr)
               (db_traces d)\<rparr>)))"

text \<open>\<open>stepRepository.Create\<close>: insert the row as it is given, sequence included; \<open>id\<close> is
  the primary key.\<close>

definition step_Create :: "(nat \<Rightarrow> bool) \<Rightarrow> db \<Rightarrow> ExecutionStep \<Rightarrow> go_error option \<times> db" where
  "step_Create flt d st =
     (if faulty flt d \<or> step_ID st \<in> set (map step_ID (db_steps d))
      then (Some DBError, called (StepCreate st) d)
      else (None, called (StepCreate st) (d\<lparr>db_steps := db_steps d @ [st]\<rparr>)))"

text \<open>\<open>stepRepository.GetByTraceID\<close>: the rows of the trace, \<open>ORDER BY sequence ASC\<close> (rows of
  equal sequence in insertion order).\<close>

definition step_GetByTraceID ::
  "(nat \<Rightarrow> bool) \<Rightarrow> db \<Rightarrow> string \<Rightarrow> (go_error + ExecutionStep list) \<times> db" where
  "step_GetByTraceID flt d traceID =
     (if faulty flt d then (Inl DBError, called (StepGetByTraceID traceID) d)
      else (Inr (sort_key step_Sequence (filter (\<lambda>st. step_TraceID st = traceID) (db_steps d))),
            called (StepGetByTraceID traceID) d))"

text \<open>\<open>traceRepository.GetBySessionID\<close>: the traces of the session, \<open>ORDER BY created_at
  DESC\<close>.\<close>

definition trace_GetBySessionID ::
  "(nat \<Rightarrow> bool) \<Rightarrow> db \<Rightarrow> string \<Rightarrow> (go_error + Trace list) \<times> db" where
  "trace_GetBySessionID flt d sessionID =
     (if faulty flt d then (Inl DBError, called (TraceGetBySessionID sessionID) d)
      else (Inr (rev (sort_key trace_CreatedAt
                   (filter (\<lambda>tr. trace_SessionID tr = sessionID) (db_traces d)))),
            called (TraceGetBySessionID sessionID) d))"

text \<open>\<open>sessionRepository.Get\<close>: \<open>First\<close> fails when no row has the identifier.\<close>

definition session_Get :: "(nat \<Rightarrow> bool) \<Rightarrow> db \<Rightarrow> string \<Rightarrow> (go_error + Session) \<times> db" where
  "session_Get flt d sid =
     (if faulty flt d then (Inl DBError, called (SessionGet sid) d)
      else case filter (\<lambda>se. sess_ID se = sid) (db_sessions d) of
             [] \<Rightarrow> (Inl RecordNotFound, called (SessionGet sid) d)
           | se # _ \<Rightarrow> (Inr se, called (SessionGet sid) d))"

text \<open>\<open>sessionRepository.UpdateBudget\<close>: one \<open>UPDATE\<close> adding to both used counters of the
  row; nothing is compared with the totals.\<close>

definition session_UpdateBudget ::
  "(nat \<Rightarrow> bool) \<Rightarrow> db \<Rightarrow> string \<Rightarrow> int \<Rightarrow> real \<Rightarrow> go_error option \<times> db" where
  "session_UpdateBudget flt d sid tokensUsed costUsed =
     (if faulty flt d then (Some DBError, called (SessionUpdateBudget sid tokensUsed costUsed) d)
      else (None, called (SessionUpdateBudget sid tokensUsed costUsed)
        (d\<lparr>db_sessions := map (\<lambda>se. if sess_ID se = sid
                 then se\<lparr>sess_Budget := (sess_Budget se)
                        \<lparr>budget_UsedTokens := budget_UsedTokens (sess_Budget se) + tokensUsed,
                         budget_UsedCost := budget_UsedCost (sess_Budget se) + costUsed\<rparr>\<rparr>
                 else se)
               (db_sessions d)\<rparr>)))"

text \<open>\<open>messageRepository.Create\<close>.\<close>

definition message_Create :: "(nat \<Rightarrow> bool) \<Rightarrow> db \<Rightarrow> Message \<Rightarrow> go_error option \<times> db" where
  "message_Create flt d m =
     (if faulty flt d \<or> msg_ID m \<in> set (map msg_ID (db_messages d))
      then (Some DBError, called (MessageCreate m) d)
      else (None, called (MessageCreate m) (d\<lparr>db_messages := db_messages d @ [m]\<rparr>)))"

section \<open>Session service\<close>

text \<open>\<open>SessionService.Get\<close> and \<open>SessionService.UpdateBudget\<close> pass straight to the
  repository. \<open>CheckBudget\<close> reads the session it is given and writes nothing.\<close>

definition SessionService_Get ::
  "(nat \<Rightarrow> bool) \<Rightarrow> db \<Rightarrow> string \<Rightarrow> (go_error + Session) \<times> db" where
  "SessionService_Get flt d sid = session_Get flt d sid"

definition UpdateBudget ::
  "(nat \<Rightarrow> bool) \<Rightarrow> db \<Rightarrow> string \<Rightarrow> int \<Rightarrow> real \<Rightarrow> go_error option \<times> db" where
  "UpdateBudget flt d sid tokensUsed costUsed = session_UpdateBudget flt d sid tokensUsed costUsed"


definition SaveMessage :: "(nat \<Rightarrow> bool) \<Rightarrow> db \<Rightarrow> Message \<Rightarrow> go_error option \<times> db" where
  "SaveMessage flt d m = message_Create flt d m"

section \<open>Tracer (internal/domain/service/tracer_impl.go)\<close>

text \<open>\<open>StartTrace\<close>; \<open>uuid\<close> is the value of \<open>uuid.New().String()\<close>.\<close>

definition StartTrace ::
  "(nat \<Rightarrow> bool) \<Rightarrow> db \<Rightarrow> string \<Rightarrow> Time \<Rightarrow> string \<Rightarrow> string \<Rightarrow> (go_error + Trace) \<times> db" where
  "StartTrace flt d uuid now sessionID agentName =
     (let trace = \<lparr>trace_ID = uuid, trace_SessionID = sessionID, trace_AgentName = agentName,
                   trace_Status = TraceStatusRunning, trace_StartedAt = now,
                   trace_EndedAt = None, trace_CostTokens = 0, trace_CostAPI = 0,
                   trace_Metadata = JNull, trace_CreatedAt = now\<rparr>
      in case trace_Create flt d trace of
           (Some err, d') \<Rightarrow> (Inl (Wrapf ''failed to create trace: '' err), d')
         | (None, d') \<Rightarrow> (Inr trace, d'))"

definition getNextSequence :: "(nat \<Rightarrow> bool) \<Rightarrow> db \<Rightarrow> string \<Rightarrow> (go_error + int) \<times> db" where
  "getNextSequence flt d traceID =
     (case step_GetByTraceID flt d traceID of
        (Inl err, d') \<Rightarrow> (Inl err, d')
      | (Inr steps, d') \<Rightarrow> (Inr (int (length steps) + 1), d'))"

text \<open>
  \<open>RecordStep\<close> takes a pointer and writes to the step it points to: the model returns
  the step as the caller sees it afterwards, next to the error and the store.
\<close>

definition RecordStep ::
  "(nat \<Rightarrow> bool) \<Rightarrow> db \<Rightarrow> string \<Rightarrow> Time \<Rightarrow> ExecutionStep
     \<Rightarrow> go_error option \<times> ExecutionStep \<times> db" where
  "RecordStep flt d uuid now step0 =
     (let step1 = (if step_ID step0 = [] then step0\<lparr>step_ID := uuid\<rparr> else step0) in
      if step_TraceID step1 = [] then (Some (Errorf ''traceID is required''), step1, d)
      else
        let step2 = step1\<lparr>step_CreatedAt := now, step_UpdatedAt := now\<rparr>;
            sequenced =
              (if step_Sequence step2 = 0
               then (case getNextSequence flt d (step_TraceID step2) of
                       (Inl err, d1) \<Rightarrow> Inl (err, d1)
                     | (Inr sequence, d1) \<Rightarrow> Inr (step2\<lparr>step_Sequence := sequence\<rparr>, d1))
               else Inr (step2, d))
        in case sequenced of
             Inl (err, d1) \<Rightarrow> (Some (Wrapf ''failed to get sequence: '' err), step2, d1)
           | Inr (step3, d1) \<Rightarrow>
               (case step_Create flt d1 step3 of
                  (Some err, d2) \<Rightarrow> (Some (Wrapf ''failed to record step: '' err), step3, d2)
                | (None, d2) \<Rightarrow>
                    if step_CostTokens step3 > 0 \<or> step_CostAPI step3 > 0
                    then (case trace_UpdateCost flt d2 (step_TraceID step3)
                                 (step_CostTokens step3) (step_CostAPI step3) of
                            (Some err, d3) \<Rightarrow>
                              (Some (Wrapf ''failed to update trace cost: '' err), step3, d3)
                          | (None, d3) \<Rightarrow> (None, step3, d3))
                    else (None, step3, d2)))"

text \<open>
  \<open>RecordSnapshot\<close>; \<open>marshal\<close> is \<open>json.Marshal\<close> on a snapshot (\<open>None\<close> when it fails), the
  snapshot pointer may be nil. The step literal sets no \<open>Sequence\<close>, so the field has
  Go's zero value, and the step goes to \<open>stepRepo.Create\<close> directly.
\<close>

definition RecordSnapshot ::
  "(nat \<Rightarrow> bool) \<Rightarrow> db \<Rightarrow> string \<Rightarrow> Time \<Rightarrow> (Snapshot \<Rightarrow> json option) \<Rightarrow> string
     \<Rightarrow> Snapshot option \<Rightarrow> go_error option \<times> db" where
  "RecordSnapshot flt d uuid now marshal traceID snapshot =
     (if traceID = [] then (Some (Errorf ''traceID is required''), d)
      else case snapshot of
        None \<Rightarrow> (Some (Errorf ''snapshot is required''), d)
      | Some snap \<Rightarrow>
          (case marshal (snap\<lparr>snap_Timestamp := now\<rparr>) of
             None \<Rightarrow> (Some (Wrapf ''failed to marshal snapshot: '' (Errorf ''json'')), d)
           | Some snapshotJSON \<Rightarrow>
               step_Create flt d
                 \<lparr>step_ID = uuid, step_TraceID = traceID, step_Sequence = 0,
                  step_StepType = ''snapshot'', step_Input = JNull, step_Output = JNull,
                  step_CostTokens = 0, step_CostAPI = 0, step_LatencyMs = 0,
                  step_Snapshot = snapshotJSON, step_CreatedAt = now, step_UpdatedAt = now\<rparr>))"

definition EndTrace ::
  "(nat \<Rightarrow> bool) \<Rightarrow> db \<Rightarrow> Time \<Rightarrow> string \<Rightarrow> TraceStatus \<Rightarrow> go_error option \<times> db" where
  "EndTrace flt d now traceID status = trace_UpdateStatus flt d traceID status now"

section \<open>LLM service: provider inference\<close>

text \<open>
  \<open>inferProviderFromModel\<close>: a Go \<open>switch\<close> without tag, the first case whose condition
  holds wins; every condition is a disjunction of string equalities.
\<close>

definition inferProviderFromModel :: "string \<Rightarrow> LLMProvider" where
  "inferProviderFromModel modelName =
     (if modelName = ''deepseek-chat'' \<or> modelName = ''deepseek-reasoner''
        then LLMProviderDeepSeek
      else if modelName = ''claude-3-opus-20240229'' \<or> modelName = ''claude-3-sonnet-20240229''
           \<or> modelName = ''claude-3-haiku-20240307'' \<or> modelName = ''claude-3-5-sonnet-20241022''
        then LLMProviderAnthropic
      else if modelName = ''qwen-turbo'' \<or> modelName = ''qwen-plus'' \<or> modelName = ''qwen-max''
           \<or> modelName = ''qwen-max-longcontext''
        then LLMProviderQwen
      else if modelName = ''ernie-bot-turbo'' \<or> modelName = ''ernie-bot''
           \<or> modelName = ''ernie-bot-4'' \<or> modelName = ''ernie-speed''
        then LLMProviderErnie
      else if modelName = ''glm-4'' \<or> modelName = ''glm-4v'' \<or> modelName = ''glm-3-turbo''
        then LLMProviderChatGLM
      else LLMProviderOpenAI)"

section \<open>Activity tracker (the stream supervisor of the LLM handler)\<close>

text \<open>
  Durations are \<open>time.Duration\<close> values, integers counting nanoseconds; \<open>now.Sub(t)\<close> is the
  difference of the two instants. The tracker's cancellable context is the flag \<open>at_done\<close>.
\<close>

record StreamTimeoutConfig =
  InitialTimeout :: int
  ActivityTimeout :: int
  MaxTotalTimeout :: int

record ActivityTracker =
  at_lastActivity :: Time
  at_totalStart :: Time
  at_config :: StreamTimeoutConfig
  at_done :: bool

definition NewActivityTracker :: "StreamTimeoutConfig \<Rightarrow> Time \<Rightarrow> ActivityTracker" where
  "NewActivityTracker config now =
     \<lparr>at_lastActivity = now, at_totalStart = now, at_config = config, at_done = False\<rparr>"

definition UpdateActivity :: "ActivityTracker \<Rightarrow> Time \<Rightarrow> ActivityTracker" where
  "UpdateActivity atr now = atr\<lparr>at_lastActivity := now\<rparr>"

definition shouldTimeout :: "ActivityTracker \<Rightarrow> Time \<Rightarrow> bool" where
  "shouldTimeout atr now =
     (let timeSinceLastActivity = now - at_lastActivity atr;
          totalTime = now - at_totalStart atr
      in if timeSinceLastActivity > ActivityTimeout (at_config atr) then True
         else if totalTime > MaxTotalTimeout (at_config atr) then True
         else False)"

definition Stop :: "ActivityTracker \<Rightarrow> ActivityTracker" where
  "Stop atr = atr\<lparr>at_done := True\<rparr>"

definition getDefaultStreamTimeoutConfig :: StreamTimeoutConfig where
  "getDefaultStreamTimeoutConfig =
     \<lparr>InitialTimeout = 2 * 60 * 1000000000,
      ActivityTimeout = 30 * 1000000000,
      MaxTotalTimeout = 30 * 60 * 1000000000\<rparr>"

text \<open>
  \<open>StartMonitoring\<close> starts a goroutine that loops over a \<open>select\<close>: when the context is
  done it returns; on a tick of the one-second ticker it polls \<open>shouldTimeout\<close> and, when
  that holds, cancels the context and returns. The other goroutines act on the tracker
  between ticks. A run is the sequence of these events in the order in which they take
  effect: a tick with the instant its poll reads, a call of \<open>UpdateActivity\<close> with the
  instant it stores, a call of \<open>Stop\<close>. \<open>mon_fired\<close> records the poll at which the monitor
  itself cancelled. A tick that finds the context done changes nothing.
\<close>

datatype tracker_event = Tick Time | Activity Time | StopCall

record monitored =
  mon_tracker :: ActivityTracker
  mon_fired :: "Time option"

fun monitor_step :: "monitored \<Rightarrow> tracker_event \<Rightarrow> monitored" where
  "monitor_step m (Activity now) = m\<lparr>mon_tracker := UpdateActivity (mon_tracker m) now\<rparr>"
| "monitor_step m StopCall = m\<lparr>mon_tracker := Stop (mon_tracker m)\<rparr>"
| "monitor_step m (Tick now) =
     (if at_done (mon_tracker m) then m
      else if shouldTimeout (mon_tracker m) now
           then m\<lparr>mon_tracker := Stop (mon_tracker m), mon_fired := Some now\<rparr>
           else m)"

primrec run_monitor :: "monitored \<Rightarrow> tracker_event list \<Rightarrow> monitored" where
  "run_monitor m [] = m"
| "run_monitor m (e # es) = run_monitor (monitor_step m e) es"

definition StartMonitoring :: "ActivityTracker \<Rightarrow> monitored" where
  "StartMonitoring atr = \<lparr>mon_tracker = atr, mon_fired = None\<rparr>"

section \<open>Metrics calculator (internal/domain/service/metrics_calculator.go)\<close>

text \<open>
  The loops over \<open>values\<close> are left folds. \<open>Max\<close> and \<open>Min\<close> start from \<open>values[0]\<close>: on an
  empty slice the index is out of range and Go panics, which is the result \<open>None\<close>.
  \<open>Avg\<close> divides by the length; on an empty slice Go computes the float \<open>0/0\<close> without
  panicking.
\<close>

definition calc_Sum :: "real list \<Rightarrow> real" where
  "calc_Sum values = foldl (\<lambda>sum value. sum + value) 0 values"

definition calc_Avg :: "real list \<Rightarrow> real" where
  "calc_Avg values = foldl (\<lambda>sum value. sum + value) 0 values / real (length values)"

definition calc_Max :: "real list \<Rightarrow> real option" where
  "calc_Max values =
     (case values of
        [] \<Rightarrow> None
      | v0 # _ \<Rightarrow> Some (foldl (\<lambda>max value. if value > max then value else max) v0 values))"

definition calc_Min :: "real list \<Rightarrow> real option" where
  "calc_Min values =
     (case values of
        [] \<Rightarrow> None
      | v0 # _ \<Rightarrow> Some (foldl (\<lambda>min value. if value < min then value else min) v0 values))"

section \<open>Cost analyzer (internal/domain/service/analysis_engine.go)\<close>

record TimeRange =
  StartTime :: string
  EndTime :: string

record FilterCriteria =
  fc_MinCost :: real
  fc_MaxCost :: real
  fc_Status :: TraceStatus
  fc_ModelNames :: "string list"
  fc_StepTypes :: "string list"

record CostAnalysisInput =
  in_SessionID :: string
  in_TimeRange :: "TimeRange option"
  in_GroupBy :: "string list"
  in_Filters :: "FilterCriteria option"

record CostSummary =
  TotalCost :: real
  AvgCost :: real
  MaxCost :: real
  MinCost :: real
  TotalTokens :: int
  TraceCount :: int
  CostPerToken :: real

record CostBreakdown =
  ByModel :: "string \<rightharpoonup> real"
  ByStepType :: "string \<rightharpoonup> real"
  ByTime :: "string \<rightharpoonup> real"

record CostDataPoint =
  Timestamp :: string
  Cost :: real

record CostTrend =
  DataPoints :: "CostDataPoint list"
  GrowthRate :: real
  IsIncreasing :: bool

text \<open>The \<open>Reason\<close> of a hotspot is a fixed sentence around the model name; the record keeps
  the model name.\<close>

record CostHotspot =
  hs_TraceID :: string
  hs_Cost :: real
  hs_Tokens :: int
  hs_Reason :: string
  hs_Impact :: string

record CostAnalysisResult =
  res_SessionID :: string
  res_Summary :: "CostSummary option"
  res_Breakdown :: "CostBreakdown option"
  res_Trends :: "CostTrend option"
  res_Hotspots :: "CostHotspot list"
  res_Suggestions :: "string list"

text \<open>
  What the analyzer takes from Go's standard library: \<open>sort.Slice\<close> on a slice of traces
  with a \<open>less\<close> function (it sorts in place and is not stable), and the two \<open>Format\<close>
  layouts of \<open>time.Time\<close>.
\<close>

record stdlib =
  lib_sortSlice :: "(Trace \<Rightarrow> Trace \<Rightarrow> bool) \<Rightarrow> Trace list \<Rightarrow> Trace list"
  lib_formatDay :: "Time \<Rightarrow> string"
  lib_formatRFC3339 :: "Time \<Rightarrow> string"

text \<open>The log of the calls to the injected metrics calculator is returned next to the
  result.\<close>


datatype calc_call =
  CallSum "real list" | CallAvg "real list" | CallMax "real list" | CallMin "real list"

text \<open>\<open>DataAggregatorImpl.FilterTraces\<close> is a stub that returns nil.\<close>

definition FilterTraces :: "Trace list \<Rightarrow> FilterCriteria \<Rightarrow> Trace list" where
  "FilterTraces traces criteria = []"

definition calculateSummary :: "Trace list \<Rightarrow> CostSummary outcome \<times> calc_call list" where
  "calculateSummary traces =
     (let costs = map trace_CostAPI traces;
          totalTokens = foldl (\<lambda>total trace. wrap64 (total + trace_CostTokens trace)) 0 traces;
          totalCost = calc_Sum costs;
          avgCost = calc_Avg costs
      in case calc_Max costs of
           None \<Rightarrow> (Panic, [CallSum costs, CallAvg costs, CallMax costs])
         | Some maxCost \<Rightarrow>
             (case calc_Min costs of
                None \<Rightarrow> (Panic, [CallSum costs, CallAvg costs, CallMax costs, CallMin costs])
              | Some minCost \<Rightarrow>
                  (Return \<lparr>TotalCost = totalCost, AvgCost = avgCost, MaxCost = maxCost,
                           MinCost = minCost, TotalTokens = totalTokens,
                           TraceCount = int (length traces),
                           CostPerToken = (if totalTokens > 0
                                           then totalCost / real_of_int totalTokens else 0)\<rparr>,
                   [CallSum costs, CallAvg costs, CallMax costs, CallMin costs])))"

definition extractModelFromMetadata :: "Trace \<Rightarrow> string" where
  "extractModelFromMetadata trace =
     (if trace_AgentName trace \<noteq> [] then trace_AgentName trace else ''unknown'')"

definition estimateStepCost :: "ExecutionStep \<Rightarrow> real" where
  "estimateStepCost step = real_of_int (step_CostTokens step) * 0.00002"

text \<open>\<open>m[k] += v\<close> on a Go map: a missing key reads as zero.\<close>

definition map_add_to :: "(string \<rightharpoonup> real) \<Rightarrow> string \<Rightarrow> real \<Rightarrow> (string \<rightharpoonup> real)" where
  "map_add_to m k v = m(k \<mapsto> (case m k of None \<Rightarrow> 0 | Some x \<Rightarrow> x) + v)"

text \<open>The second loop of \<open>calculateBreakdown\<close>: the steps of each trace are read from the
  store; a trace whose read fails is skipped.\<close>

fun byStepType_loop ::
  "(nat \<Rightarrow> bool) \<Rightarrow> db \<Rightarrow> (string \<rightharpoonup> real) \<Rightarrow> Trace list \<Rightarrow> (string \<rightharpoonup> real) \<times> db" where
  "byStepType_loop flt d m [] = (m, d)"
| "byStepType_loop flt d m (trace # traces) =
     (case step_GetByTraceID flt d (trace_ID trace) of
        (Inl err, d') \<Rightarrow> byStepType_loop flt d' m traces
      | (Inr steps, d') \<Rightarrow>
          byStepType_loop flt d'
            (foldl (\<lambda>m step. map_add_to m (step_StepType step) (estimateStepCost step)) m steps)
            traces)"

definition calculateBreakdown ::
  "stdlib \<Rightarrow> (nat \<Rightarrow> bool) \<Rightarrow> db \<Rightarrow> Trace list \<Rightarrow> string list \<Rightarrow> CostBreakdown \<times> db" where
  "calculateBreakdown L flt d traces groupBy =
     (let byModel = foldl (\<lambda>m trace. map_add_to m (extractModelFromMetadata trace)
                                        (trace_CostAPI trace)) Map.empty traces;
          (byStepType, d') = byStepType_loop flt d Map.empty traces;
          byTime = foldl (\<lambda>m trace. map_add_to m (lib_formatDay L (trace_StartedAt trace))
                                       (trace_CostAPI trace)) Map.empty traces
      in (\<lparr>ByModel = byModel, ByStepType = byStepType, ByTime = byTime\<rparr>, d'))"

text \<open>The two \<open>less\<close> functions handed to \<open>sort.Slice\<close>.\<close>

definition lessStartedAt :: "Trace \<Rightarrow> Trace \<Rightarrow> bool" where
  "lessStartedAt a b = (trace_StartedAt a < trace_StartedAt b)"

definition lessCostDesc :: "Trace \<Rightarrow> Trace \<Rightarrow> bool" where
  "lessCostDesc a b = (trace_CostAPI a > trace_CostAPI b)"

text \<open>The loop of \<open>analyzeTrends\<close>: the running total and the data points so far.\<close>

fun dataPoints_loop :: "stdlib \<Rightarrow> real \<Rightarrow> Trace list \<Rightarrow> CostDataPoint list" where
  "dataPoints_loop L cumulativeCost [] = []"
| "dataPoints_loop L cumulativeCost (trace # traces) =
     \<lparr>Timestamp = lib_formatRFC3339 L (trace_StartedAt trace),
      Cost = cumulativeCost + trace_CostAPI trace\<rparr>
     # dataPoints_loop L (cumulativeCost + trace_CostAPI trace) traces"

text \<open>\<open>analyzeTrends\<close> sorts the slice it is given in place: the caller's slice is the
  sorted one afterwards, so the model returns it.\<close>

definition analyzeTrends :: "stdlib \<Rightarrow> Trace list \<Rightarrow> CostTrend \<times> Trace list" where
  "analyzeTrends L traces0 =
     (let traces = lib_sortSlice L lessStartedAt traces0;
          dataPoints = dataPoints_loop L 0 traces;
          (growthRate, isIncreasing) =
            (if length traces > 1
             then let firstCost = trace_CostAPI (traces ! 0);
                      lastCost = trace_CostAPI (traces ! (length traces - 1))
                  in if firstCost > 0
                     then ((lastCost - firstCost) / firstCost, lastCost > firstCost)
                     else (0, False)
             else (0, False))
      in (\<lparr>DataPoints = dataPoints, GrowthRate = growthRate, IsIncreasing = isIncreasing\<rparr>,
          traces))"

definition hotspot_of :: "Trace \<Rightarrow> CostHotspot" where
  "hotspot_of trace =
     \<lparr>hs_TraceID = trace_ID trace, hs_Cost = trace_CostAPI trace,
      hs_Tokens = trace_CostTokens trace,
      hs_Reason = extractModelFromMetadata trace,
      hs_Impact = (if trace_CostAPI trace > 1.0 then ''high''
                   else if trace_CostAPI trace > 0.1 then ''medium'' else ''low'')\<rparr>"

text \<open>\<open>IdentifyHotspots\<close>: sort by cost, then the loop \<open>for i := 0; i < topN && i < len(traces)\<close>
  appends one hotspot per index.\<close>

definition IdentifyHotspots :: "stdlib \<Rightarrow> Trace list \<Rightarrow> int \<Rightarrow> CostHotspot list" where
  "IdentifyHotspots L traces0 topN =
     (let traces = lib_sortSlice L lessCostDesc traces0
      in map hotspot_of (take (nat topN) traces))"

definition Analyze ::
  "stdlib \<Rightarrow> (nat \<Rightarrow> bool) \<Rightarrow> db \<Rightarrow> CostAnalysisInput
     \<Rightarrow> (go_error + CostAnalysisResult) outcome \<times> db \<times> calc_call list" where
  "Analyze L flt d input =
     (case trace_GetBySessionID flt d (in_SessionID input) of
        (Inl err, d1) \<Rightarrow> (Return (Inl (Wrapf ''failed to get traces: '' err)), d1, [])
      | (Inr traces0, d1) \<Rightarrow>
          if length traces0 = 0
          then (Return (Inr \<lparr>res_SessionID = in_SessionID input,
                   res_Summary = Some \<lparr>TotalCost = 0, AvgCost = 0, MaxCost = 0, MinCost = 0,
                                        TotalTokens = 0, TraceCount = 0, CostPerToken = 0\<rparr>,
                   res_Breakdown = None, res_Trends = None, res_Hotspots = [],
                   res_Suggestions = []\<rparr>), d1, [])
          else
            let traces = (case in_Filters input of
                            None \<Rightarrow> traces0
                          | Some criteria \<Rightarrow> FilterTraces traces0 criteria)
            in case calculateSummary traces of
                 (Panic, calls) \<Rightarrow> (Panic, d1, calls)
               | (Return summary, calls) \<Rightarrow>
                   let (breakdown, d2) = calculateBreakdown L flt d1 traces (in_GroupBy input);
                       (trends, traces') = analyzeTrends L traces;
                       hotspots = IdentifyHotspots L traces' 5
                   in (Return (Inr \<lparr>res_SessionID = in_SessionID input,
                          res_Summary = Some summary, res_Breakdown = Some breakdown,
                          res_Trends = Some trends, res_Hotspots = hotspots,
                          res_Suggestions = []\<rparr>), d2, calls))"

section \<open>Analysis handler (internal/interface/handler/analysis_handler.go)\<close>

datatype analysis_response =
  AnalysisError nat string
  | AnalysisOK CostAnalysisResult
  | AnalysisPanic

text \<open>\<open>AnalyzeCost\<close>; the three arguments are the query parameters \<open>session_id\<close>,
  \<open>start_time\<close> and \<open>end_time\<close>. The success log reads \<open>result.Summary.TotalCost\<close>.\<close>

definition AnalyzeCost_input :: "string \<Rightarrow> string \<Rightarrow> string \<Rightarrow> CostAnalysisInput" where
  "AnalyzeCost_input sessionID startTime endTime =
     \<lparr>in_SessionID = sessionID,
      in_TimeRange = (if startTime \<noteq> [] \<and> endTime \<noteq> []
                      then Some \<lparr>StartTime = startTime, EndTime = endTime\<rparr> else None),
      in_GroupBy = [''model'', ''step_type'', ''time''],
      in_Filters = None\<rparr>"

definition AnalyzeCost ::
  "stdlib \<Rightarrow> (nat \<Rightarrow> bool) \<Rightarrow> db \<Rightarrow> string \<Rightarrow> string \<Rightarrow> string
     \<Rightarrow> analysis_response \<times> db \<times> calc_call list" where
  "AnalyzeCost L flt d sessionID startTime endTime =
     (if sessionID = [] then (AnalysisError 400 ''SESSION_ID_REQUIRED'', d, [])
      else case Analyze L flt d (AnalyzeCost_input sessionID startTime endTime) of
             (Panic, d', calls) \<Rightarrow> (AnalysisPanic, d', calls)
           | (Return (Inl err), d', calls) \<Rightarrow>
               (AnalysisError 500 ''COST_ANALYSIS_FAILED'', d', calls)
           | (Return (Inr result), d', calls) \<Rightarrow>
               (case res_Summary result of
                  None \<Rightarrow> (AnalysisPanic, d', calls)
                | Some summary \<Rightarrow> (AnalysisOK result, d', calls)))"

section \<open>LLM service: configuration (internal/domain/service, LLMService)\<close>

text \<open>
  The service configuration: the default provider and model, and the credentials that
  \<open>GetProviderConfig\<close> reads from the process environment (\<open>llm_getenv p\<close> is the pair of API
  key and base URL found for provider \<open>p\<close>). \<open>GetProviderConfig\<close> returns one of six
  struct types; the model keeps the provider name next to the pair, so that the type
  assertions of \<open>getProviderCredentials\<close> can be decided.
\<close>

record LLMServiceConfig =
  llm_DefaultProvider :: string
  llm_DefaultModel :: string
  llm_getenv :: "string \<Rightarrow> string \<times> string"

definition known_provider :: "string \<Rightarrow> bool" where
  "known_provider p =
     (p = ''openai'' \<or> p = ''deepseek'' \<or> p = ''anthropic'' \<or> p = ''qwen'' \<or> p = ''ernie''
      \<or> p = ''chatglm'')"

definition GetProviderConfig ::
  "LLMServiceConfig \<Rightarrow> string \<Rightarrow> (string \<times> string \<times> string) option" where
  "GetProviderConfig c provider =
     (if known_provider provider then Some (provider, llm_getenv c provider) else None)"

definition GetDefaultProviderConfig ::
  "LLMServiceConfig \<Rightarrow> (string \<times> string \<times> string) option" where
  "GetDefaultProviderConfig c = GetProviderConfig c (llm_DefaultProvider c)"

definition getProviderFromType :: "string \<Rightarrow> LLMProvider" where
  "getProviderFromType providerType =
     (if providerType = ''openai'' then LLMProviderOpenAI
      else if providerType = ''deepseek'' then LLMProviderDeepSeek
      else if providerType = ''anthropic'' then LLMProviderAnthropic
      else if providerType = ''qwen'' then LLMProviderQwen
      else if providerType = ''ernie'' then LLMProviderErnie
      else if providerType = ''chatglm'' then LLMProviderChatGLM
      else LLMProviderOpenAI)"

definition getProviderCredentials ::
  "string \<Rightarrow> (string \<times> string \<times> string) option \<Rightarrow> string \<times> string" where
  "getProviderCredentials providerType providerConfig =
     (case providerConfig of
        None \<Rightarrow> ([], [])
      | Some (kind, apiKey, baseURL) \<Rightarrow>
          if known_provider providerType \<and> kind = providerType then (apiKey, baseURL)
          else ([], []))"

definition getDefaultModelForProvider :: "LLMServiceConfig \<Rightarrow> string \<Rightarrow> string" where
  "getDefaultModelForProvider c providerType =
     (if providerType = ''openai'' then llm_DefaultModel c
      else if providerType = ''deepseek'' then ''deepseek-chat''
      else if providerType = ''anthropic'' then ''claude-3-sonnet-20240229''
      else if providerType = ''qwen'' then ''qwen-turbo''
      else if providerType = ''ernie'' then ''ernie-bot-turbo''
      else if providerType = ''chatglm'' then ''glm-4''
      else llm_DefaultModel c)"

definition GetDefaultConfig :: "LLMServiceConfig \<Rightarrow> LLMConfig" where
  "GetDefaultConfig c =
     (let providerConfig = (case GetDefaultProviderConfig c of
                              Some pc \<Rightarrow> Some pc
                            | None \<Rightarrow> GetProviderConfig c ''openai'');
          provider = getProviderFromType (llm_DefaultProvider c);
          (apiKey, baseURL) = getProviderCredentials (llm_DefaultProvider c) providerConfig;
          modelName = getDefaultModelForProvider c (llm_DefaultProvider c)
      in \<lparr>cfg_Provider = provider, cfg_APIKey = apiKey, cfg_Model = modelName,
          cfg_BaseURL = baseURL, cfg_Temperature = 0.7, cfg_MaxTokens = 2000\<rparr>)"

text \<open>\<open>getEffectiveLLMConfig\<close>; the user configuration is a pointer that may be nil.\<close>

definition apply_user_provider :: "LLMServiceConfig \<Rightarrow> LLMConfig \<Rightarrow> LLMConfig \<Rightarrow> LLMConfig" where
  "apply_user_provider c userConfig config =
     (if cfg_Provider userConfig \<noteq> []
      then let config1 = config\<lparr>cfg_Provider := cfg_Provider userConfig\<rparr>
           in case GetProviderConfig c (cfg_Provider userConfig) of
                None \<Rightarrow> config1
              | Some pc \<Rightarrow>
                  let (apiKey, baseURL) =
                        getProviderCredentials (cfg_Provider userConfig) (Some pc);
                      config2 = config1\<lparr>cfg_APIKey := apiKey\<rparr>
                  in if baseURL \<noteq> [] then config2\<lparr>cfg_BaseURL := baseURL\<rparr> else config2
      else config)"

definition getEffectiveLLMConfig :: "LLMServiceConfig \<Rightarrow> LLMConfig option \<Rightarrow> LLMConfig" where
  "getEffectiveLLMConfig c userConfig =
     (let config0 = GetDefaultConfig c;
          config1 =
            (case userConfig of
               None \<Rightarrow> config0
             | Some u \<Rightarrow>
                 let a = apply_user_provider c u config0;
                     b = (if cfg_Model u \<noteq> [] then a\<lparr>cfg_Model := cfg_Model u\<rparr> else a);
                     e = (if cfg_BaseURL u \<noteq> [] then b\<lparr>cfg_BaseURL := cfg_BaseURL u\<rparr> else b);
                     f = (if cfg_Temperature u > 0
                          then e\<lparr>cfg_Temperature := cfg_Temperature u\<rparr> else e)
                 in if cfg_MaxTokens u > 0 then f\<lparr>cfg_MaxTokens := cfg_MaxTokens u\<rparr> else f);
          config2 = (if cfg_Provider config1 = []
                     then config1\<lparr>cfg_Provider := inferProviderFromModel (cfg_Model config1)\<rparr>
                     else config1)
      in if cfg_APIKey config2 = []
         then (case GetProviderConfig c (cfg_Provider config2) of
                 None \<Rightarrow> config2
               | Some pc \<Rightarrow>
                   config2\<lparr>cfg_APIKey :=
                     fst (getProviderCredentials (cfg_Provider config2) (Some pc))\<rparr>)
         else config2)"

definition ValidateConfig :: "LLMConfig \<Rightarrow> go_error option" where
  "ValidateConfig config =
     (if cfg_Provider config = [] then Some (Errorf ''provider is required'')
      else if cfg_Model config = [] then Some (Errorf ''model is required'')
      else if cfg_Temperature config < 0 \<or> cfg_Temperature config > 2
        then Some (Errorf ''temperature must be between 0 and 2'')
      else if cfg_MaxTokens config \<le> 0 \<or> cfg_MaxTokens config > 32000
        then Some (Errorf ''max_tokens must be between 1 and 32000'')
      else None)"

record LLMRequest =
  lrq_SessionID :: string
  lrq_Messages :: "Message list"
  lrq_Config :: LLMConfig
  lrq_Provider :: string
  lrq_Model :: string
  lrq_Temperature :: "real option"
  lrq_MaxTokens :: "int option"
  lrq_Tools :: "string list"

text \<open>The request that \<open>ExecuteChat\<close> and \<open>ExecuteChatStream\<close> both build before they call
  the client.\<close>

definition build_LLMRequest ::
  "LLMServiceConfig \<Rightarrow> string \<Rightarrow> Message list \<Rightarrow> LLMConfig option \<Rightarrow> LLMRequest" where
  "build_LLMRequest c sessionID messages llmConfig =
     (let config = getEffectiveLLMConfig c llmConfig
      in \<lparr>lrq_SessionID = sessionID, lrq_Messages = messages, lrq_Config = config,
          lrq_Provider = cfg_Provider config, lrq_Model = cfg_Model config,
          lrq_Temperature = (if cfg_Temperature config > 0
                             then Some (cfg_Temperature config) else None),
          lrq_MaxTokens = (if cfg_MaxTokens config > 0
                           then Some (cfg_MaxTokens config) else None),
          lrq_Tools = []\<rparr>)"

section \<open>Upstream client (internal/infrastructure/client/grpc_llm_client.go)\<close>

text \<open>The protobuf messages of the RPC, with their fields as the client reads them.\<close>

definition wrap32 :: "int \<Rightarrow> int" where
  "wrap32 x = (x + 2 ^ 31) mod 2 ^ 32 - 2 ^ 31"

record pb_request =
  pbq_SessionId :: string
  pbq_Messages :: "(string \<times> string) list"
  pbq_Provider :: string
  pbq_Model :: string
  pbq_Temperature :: real
  pbq_MaxTokens :: int
  pbq_Tools :: "string list"

record pb_usage =
  pbu_PromptTokens :: int
  pbu_CompletionTokens :: int
  pbu_TotalTokens :: int

record pb_tool_call =
  pbt_Id :: string
  pbt_Type :: string
  pbt_Function :: "(string \<times> string) option"

datatype pb_type =
  CONTENT_DELTA | TOOL_CALL | USAGE_UPDATE | FINAL_RESPONSE | ERROR | UNSPECIFIED

record pb_stream_response =
  pbs_Type :: pb_type
  pbs_SessionId :: string
  pbs_ContentDelta :: string
  pbs_ToolCall :: "pb_tool_call option"
  pbs_Usage :: "pb_usage option"
  pbs_Cost :: real
  pbs_ExecutionTime :: real
  pbs_ErrorMessage :: string

record pb_response =
  pbr_SessionId :: string
  pbr_Message :: "(string \<times> string) option"
  pbr_Usage :: "pb_usage option"
  pbr_Cost :: real
  pbr_ExecutionTime :: real
  pbr_ToolCalls :: "pb_tool_call list"

text \<open>
  How a server stream ends when no more messages come: \<open>Recv\<close> returns \<open>io.EOF\<close> or a
  status error. The back-end is a function of the request: for the streaming call it
  refuses the call with a message, or gives the messages of the stream and its end; for
  the unary call it fails with a message or gives the response.
\<close>

datatype recv_end = RecvEOF | RecvError grpc_code string

record upstream =
  up_closed :: bool
  up_conn_nil :: bool
  up_stream :: "pb_request \<Rightarrow> string + (pb_stream_response list \<times> recv_end)"
  up_unary :: "pb_request \<Rightarrow> string + pb_response"

definition getConnection :: "upstream \<Rightarrow> go_error option" where
  "getConnection up =
     (if up_closed up then Some (Errorf ''gRPC client is closed'')
      else if up_conn_nil up then Some (Errorf ''gRPC connection is nil'')
      else None)"

definition to_pb_request :: "LLMRequest \<Rightarrow> pb_request" where
  "to_pb_request req =
     \<lparr>pbq_SessionId = lrq_SessionID req,
      pbq_Messages = map (\<lambda>msg. (msg_Role msg, msg_Content msg)) (lrq_Messages req),
      pbq_Provider = lrq_Provider req,
      pbq_Model = lrq_Model req,
      pbq_Temperature = (case lrq_Temperature req of None \<Rightarrow> 0.7 | Some t \<Rightarrow> t),
      pbq_MaxTokens = (case lrq_MaxTokens req of None \<Rightarrow> 2000 | Some n \<Rightarrow> wrap32 n),
      pbq_Tools = lrq_Tools req\<rparr>"

text \<open>A Go \<open>map[string]int\<close> that may be nil; reading a missing key, or a nil map, gives 0.\<close>

type_synonym usage_map = "(string \<times> int) list option"

definition usage_get :: "usage_map \<Rightarrow> string \<Rightarrow> int" where
  "usage_get usage k =
     (case usage of
        None \<Rightarrow> 0
      | Some kvs \<Rightarrow> (case map_of kvs k of None \<Rightarrow> 0 | Some v \<Rightarrow> v))"

definition usage_of_pb :: "pb_usage option \<Rightarrow> usage_map" where
  "usage_of_pb u =
     (case u of
        None \<Rightarrow> None
      | Some pu \<Rightarrow> Some [(''prompt_tokens'', pbu_PromptTokens pu),
                       (''completion_tokens'', pbu_CompletionTokens pu),
                       (''total_tokens'', pbu_TotalTokens pu)])"

record LLMResponse =
  lrs_SessionID :: string
  lrs_Role :: string
  lrs_Content :: string
  lrs_Usage :: usage_map
  lrs_Cost :: real
  lrs_ExecutionTime :: real
  lrs_ToolCalls :: "pb_tool_call list"

text \<open>\<open>ExecuteAgent\<close> (unary). The response conversion reads \<open>pbResponse.Message.Role\<close>: a
  response without message is a nil dereference.\<close>

definition ExecuteAgent :: "upstream \<Rightarrow> LLMRequest \<Rightarrow> (go_error + LLMResponse) outcome" where
  "ExecuteAgent up req =
     (case getConnection up of
        Some err \<Rightarrow> Return (Inl err)
      | None \<Rightarrow>
          (case up_unary up (to_pb_request req) of
             Inl msg \<Rightarrow>
               Return (Inl (Wrapf ''failed to execute agent via gRPC: ''
                              (GrpcStatus OtherCode msg)))
           | Inr pbResponse \<Rightarrow>
               (case pbr_Message pbResponse of
                  None \<Rightarrow> Panic
                | Some (role, content) \<Rightarrow>
                    Return (Inr \<lparr>lrs_SessionID = pbr_SessionId pbResponse,
                                 lrs_Role = role, lrs_Content = content,
                                 lrs_Usage = usage_of_pb (pbr_Usage pbResponse),
                                 lrs_Cost = pbr_Cost pbResponse,
                                 lrs_ExecutionTime = pbr_ExecutionTime pbResponse,
                                 lrs_ToolCalls = pbr_ToolCalls pbResponse\<rparr>))))"

record StreamChunk =
  chunk_Type :: string
  chunk_SessionID :: string
  chunk_ContentDelta :: string
  chunk_ToolCall :: "pb_tool_call option"
  chunk_Usage :: usage_map
  chunk_Cost :: real
  chunk_ExecTime :: real
  chunk_Error :: string

text \<open>The \<open>switch pbResponse.Type\<close> of the receive loop: each case sets the type string and
  the fields of its variant; any other type leaves the chunk with an empty type.\<close>

definition to_StreamChunk :: "pb_stream_response \<Rightarrow> StreamChunk" where
  "to_StreamChunk pb =
     (let chunk = \<lparr>chunk_Type = [], chunk_SessionID = pbs_SessionId pb, chunk_ContentDelta = [],
                   chunk_ToolCall = None, chunk_Usage = None, chunk_Cost = 0,
                   chunk_ExecTime = 0, chunk_Error = []\<rparr>
      in case pbs_Type pb of
           CONTENT_DELTA \<Rightarrow>
             chunk\<lparr>chunk_Type := ''content_delta'', chunk_ContentDelta := pbs_ContentDelta pb\<rparr>
         | TOOL_CALL \<Rightarrow> chunk\<lparr>chunk_Type := ''tool_call'', chunk_ToolCall := pbs_ToolCall pb\<rparr>
         | USAGE_UPDATE \<Rightarrow>
             chunk\<lparr>chunk_Type := ''usage_update'', chunk_Usage := usage_of_pb (pbs_Usage pb)\<rparr>
         | FINAL_RESPONSE \<Rightarrow>
             chunk\<lparr>chunk_Type := ''final_response'', chunk_Cost := pbs_Cost pb,
                   chunk_ExecTime := pbs_ExecutionTime pb,
                   chunk_Usage := usage_of_pb (pbs_Usage pb)\<rparr>
         | ERROR \<Rightarrow> chunk\<lparr>chunk_Type := ''error'', chunk_Error := pbs_ErrorMessage pb\<rparr>
         | UNSPECIFIED \<Rightarrow> chunk)"

text \<open>
  The receive loop of \<open>ExecuteAgentStream\<close>, over the messages still to come and the end
  of the stream; \<open>st\<close> is the state the callback closes over. \<open>io.EOF\<close> and a status error
  with code \<open>Canceled\<close> end the call with a nil error; the loop also returns nil after the
  callback has seen an \<open>error\<close> or \<open>final_response\<close> chunk.
\<close>

fun recv_loop ::
  "(StreamChunk \<Rightarrow> 'st \<Rightarrow> go_error option \<times> 'st) \<Rightarrow> recv_end \<Rightarrow> pb_stream_response list
     \<Rightarrow> 'st \<Rightarrow> go_error option \<times> 'st" where
  "recv_loop callback RecvEOF [] st = (None, st)"
| "recv_loop callback (RecvError Canceled msg) [] st = (None, st)"
| "recv_loop callback (RecvError OtherCode msg) [] st =
     (Some (Wrapf ''stream error: '' (GrpcStatus OtherCode msg)), st)"
| "recv_loop callback e (pbResponse # rest) st =
     (let chunk = to_StreamChunk pbResponse
      in case callback chunk st of
           (Some err, st') \<Rightarrow> (Some (Wrapf ''callback error: '' err), st')
         | (None, st') \<Rightarrow>
             if chunk_Type chunk = ''error'' \<or> chunk_Type chunk = ''final_response''
             then (None, st')
             else recv_loop callback e rest st')"

definition ExecuteAgentStream ::
  "upstream \<Rightarrow> LLMRequest \<Rightarrow> (StreamChunk \<Rightarrow> 'st \<Rightarrow> go_error option \<times> 'st) \<Rightarrow> 'st
     \<Rightarrow> go_error option \<times> 'st" where
  "ExecuteAgentStream up req callback st =
     (case getConnection up of
        Some err \<Rightarrow> (Some err, st)
      | None \<Rightarrow>
          (case up_stream up (to_pb_request req) of
             Inl msg \<Rightarrow>
               (Some (Wrapf ''failed to start stream: '' (GrpcStatus OtherCode msg)), st)
           | Inr (responses, e) \<Rightarrow> recv_loop callback e responses st))"

definition ExecuteChat ::
  "LLMServiceConfig \<Rightarrow> upstream \<Rightarrow> string \<Rightarrow> Message list \<Rightarrow> LLMConfig option
     \<Rightarrow> (go_error + LLMResponse) outcome" where
  "ExecuteChat c up sessionID messages llmConfig =
     ExecuteAgent up (build_LLMRequest c sessionID messages llmConfig)"

definition ExecuteChatStream ::
  "LLMServiceConfig \<Rightarrow> upstream \<Rightarrow> string \<Rightarrow> Message list \<Rightarrow> LLMConfig option
     \<Rightarrow> (StreamChunk \<Rightarrow> 'st \<Rightarrow> go_error option \<times> 'st) \<Rightarrow> 'st \<Rightarrow> go_error option \<times> 'st" where
  "ExecuteChatStream c up sessionID messages llmConfig callback st =
     ExecuteAgentStream up (build_LLMRequest c sessionID messages llmConfig) callback st"

section \<open>LLM handler: requests, environment, responses\<close>

text \<open>
  What a handler reads from the HTTP request: the path parameter after \<open>uuid.Parse\<close>
  (\<open>None\<close> when it is not a UUID) and the body after \<open>ShouldBindJSON\<close> (\<open>None\<close> when binding
  fails). The trace metadata built from the headers is assigned to the returned trace
  struct only and is never written to the store, so the headers are left out.
\<close>

record ChatRequest =
  cr_Messages :: "(string \<times> string) list"
  cr_Provider :: string
  cr_Model :: string
  cr_Temperature :: real
  cr_MaxTokens :: int

record chat_http_request =
  rq_id :: "string option"
  rq_body :: "ChatRequest option"

text \<open>
  What a turn takes from its environment, indexed by the place in the handler where it
  is taken: the clock readings and fresh UUIDs, the faults of the store, the JSON
  encoder of snapshots, the measured latency in milliseconds, whether the response
  writer can flush, which writes to the client fail (by the number of events already
  written) and, for the error path of the streaming handler, which contexts are done
  when the \<open>select\<close> looks at them and which ready case it picks.
\<close>

datatype point =
  PStartTrace | PUserMsg nat | PPreSnapshot | PTracker | PChunk nat | PStep | PError
  | PAssistantMsg | PPostSnapshot | PEndTrace

record turn_env =
  env_flt :: "nat \<Rightarrow> bool"
  env_clock :: "point \<Rightarrow> Time"
  env_uuid :: "point \<Rightarrow> string"
  env_marshal :: "Snapshot \<Rightarrow> json option"
  env_latency_ms :: int
  env_flusher :: bool
  env_wfail :: "nat \<Rightarrow> bool"
  env_tracker_done :: bool
  env_request_done :: bool
  env_select_tracker :: bool

record ChatResponse =
  chr_Role :: string
  chr_Content :: string
  chr_Usage :: usage_map
  chr_Cost :: real
  chr_ExecutionTime :: real
  chr_ToolCalls :: "pb_tool_call list"
  chr_TraceID :: string

text \<open>The outcome of a handler: a JSON error with its status, the unary success body, a
  response that is an event stream, or a panic (a nil pointer dereference).\<close>

datatype response =
  RespError nat string
  | RespChat ChatResponse
  | RespStream
  | RespPanic

text \<open>The text of an \<open>error\<close> event: the upstream's own message, \<open>err.Error()\<close> of a Go
  error, or one of the four fixed messages of the handler (activity timeout with the idle
  seconds, total timeout with the minutes run, timeout, client disconnected).\<close>

datatype error_text =
  FromUpstream string
  | FromError go_error
  | ActivityTimeoutMsg int
  | TotalTimeoutMsg int
  | StreamTimeoutMsg
  | ClientDisconnectedMsg

datatype sse_event =
  EvContentDelta string
  | EvToolCall "pb_tool_call option"
  | EvUsageUpdate usage_map
  | EvFinalResponse usage_map real real
  | EvError error_text
  | EvDone
  | EvNull

definition json_of_messages :: "Message list \<Rightarrow> json" where
  "json_of_messages messages =
     JArr (map (\<lambda>m. JObj [(''id'', JStr (msg_ID m)), (''session_id'', JStr (msg_SessionID m)),
                           (''role'', JStr (msg_Role m)), (''content'', JStr (msg_Content m)),
                           (''tokens'', JInt (msg_Tokens m)),
                           (''created_at'', JInt (msg_CreatedAt m))]) messages)"

definition json_of_config :: "LLMConfig option \<Rightarrow> json" where
  "json_of_config llmConfig =
     (case llmConfig of
        None \<Rightarrow> JNull
      | Some cfg \<Rightarrow> JObj [(''provider'', JStr (cfg_Provider cfg)),
                          (''api_key'', JStr (cfg_APIKey cfg)),
                          (''model'', JStr (cfg_Model cfg)),
                          (''base_url'', JStr (cfg_BaseURL cfg)),
                          (''temperature'', JNum (cfg_Temperature cfg)),
                          (''max_tokens'', JInt (cfg_MaxTokens cfg))])"

definition json_of_usage :: "usage_map \<Rightarrow> json" where
  "json_of_usage usage =
     (case usage of None \<Rightarrow> JNull | Some kvs \<Rightarrow> JObj (map (\<lambda>(k, v). (k, JInt v)) kvs))"

definition json_of_response :: "LLMResponse \<Rightarrow> json" where
  "json_of_response response =
     JObj [(''session_id'', JStr (lrs_SessionID response)),
           (''message'', JObj [(''role'', JStr (lrs_Role response)),
                               (''content'', JStr (lrs_Content response))]),
           (''usage'', json_of_usage (lrs_Usage response)),
           (''cost'', JNum (lrs_Cost response)),
           (''execution_time'', JNum (lrs_ExecutionTime response))]"

text \<open>Go's conversion of a float to \<open>int\<close> truncates towards zero.\<close>

definition go_int :: "real \<Rightarrow> int" where
  "go_int x = (if x \<ge> 0 then \<lfloor>x\<rfloor> else \<lceil>x\<rceil>)"

section \<open>LLM handler: the steps shared by Chat and ChatStream\<close>

text \<open>"Convert DTO messages to domain messages": each message gets a fresh UUID.\<close>

fun convert_messages ::
  "turn_env \<Rightarrow> string \<Rightarrow> nat \<Rightarrow> (string \<times> string) list \<Rightarrow> Message list" where
  "convert_messages env sessionID i [] = []"
| "convert_messages env sessionID i ((role, content) # rest) =
     \<lparr>msg_ID = env_uuid env (PUserMsg i), msg_SessionID = sessionID, msg_Role = role,
      msg_Content = content, msg_Tokens = 0, msg_CreatedAt = 0\<rparr>
     # convert_messages env sessionID (Suc i) rest"

text \<open>"Build LLM config from request": the pointer \<open>llmConfig\<close> stays nil when the request
  names neither provider nor model; otherwise the configuration is validated.\<close>

definition build_llmConfig :: "ChatRequest \<Rightarrow> go_error + LLMConfig option" where
  "build_llmConfig req =
     (if cr_Provider req \<noteq> [] \<or> cr_Model req \<noteq> []
      then let llmConfig = \<lparr>cfg_Provider = cr_Provider req, cfg_APIKey = [],
                             cfg_Model = cr_Model req, cfg_BaseURL = [],
                             cfg_Temperature = cr_Temperature req,
                             cfg_MaxTokens = cr_MaxTokens req\<rparr>
           in case ValidateConfig llmConfig of
                Some err \<Rightarrow> Inl err
              | None \<Rightarrow> Inr (Some llmConfig)
      else Inr None)"

text \<open>
  "Record the pre_llm snapshot": inside \<open>if trace != nil\<close> the state map is built from
  \<open>llmConfig.Model\<close> and \<open>llmConfig.Provider\<close>, which dereference the pointer. The error of
  \<open>RecordSnapshot\<close> is dropped.
\<close>

definition pre_llm_snapshot ::
  "turn_env \<Rightarrow> db \<Rightarrow> Trace option \<Rightarrow> Message list \<Rightarrow> LLMConfig option \<Rightarrow> string \<Rightarrow> db outcome"
  where
  "pre_llm_snapshot env d trace messages llmConfig sessionID =
     (case trace of
        None \<Rightarrow> Return d
      | Some tr \<Rightarrow>
          (case llmConfig of
             None \<Rightarrow> Panic
           | Some cfg \<Rightarrow>
               let stateJSON = JObj [(''messages_count'', JInt (int (length messages))),
                                     (''model'', JStr (cfg_Model cfg)),
                                     (''provider'', JStr (cfg_Provider cfg))];
                   inputJSON = json_of_messages messages;
                   contextJSON = JObj [(''llm_config'', json_of_config llmConfig),
                                       (''session_id'', JStr sessionID)]
               in Return (snd (RecordSnapshot (env_flt env) d (env_uuid env PPreSnapshot)
                    (env_clock env PPreSnapshot) (env_marshal env) (trace_ID tr)
                    (Some \<lparr>snap_Stage = ''pre_llm'', snap_Timestamp = 0,
                           snap_Input = inputJSON, snap_Output = JNull,
                           snap_State = stateJSON, snap_Context = contextJSON\<rparr>)))))"

text \<open>"Record the post_llm snapshot" and "end the trace", for a trace that exists; the
  state map dereferences \<open>llmConfig\<close> again.\<close>

definition post_llm_snapshot ::
  "turn_env \<Rightarrow> db \<Rightarrow> Trace \<Rightarrow> Message list \<Rightarrow> LLMConfig option \<Rightarrow> string \<Rightarrow> json \<Rightarrow> int
     \<Rightarrow> real \<Rightarrow> db outcome" where
  "post_llm_snapshot env d tr messages llmConfig sessionID outputJSON totalTokens cost =
     (case llmConfig of
        None \<Rightarrow> Panic
      | Some cfg \<Rightarrow>
          let inputJSON = json_of_messages messages;
              stateJSON = JObj [(''messages_count'', JInt (int (length messages) + 1)),
                                (''model'', JStr (cfg_Model cfg)),
                                (''provider'', JStr (cfg_Provider cfg)),
                                (''total_tokens'', JInt totalTokens),
                                (''cost'', JNum cost)];
              contextJSON = JObj [(''llm_config'', json_of_config llmConfig),
                                  (''session_id'', JStr sessionID),
                                  (''latency_ms'', JInt (env_latency_ms env))];
              d1 = snd (RecordSnapshot (env_flt env) d (env_uuid env PPostSnapshot)
                     (env_clock env PPostSnapshot) (env_marshal env) (trace_ID tr)
                     (Some \<lparr>snap_Stage = ''post_llm'', snap_Timestamp = 0,
                            snap_Input = inputJSON, snap_Output = outputJSON,
                            snap_State = stateJSON, snap_Context = contextJSON\<rparr>))
          in Return (snd (EndTrace (env_flt env) d1 (env_clock env PEndTrace) (trace_ID tr)
                            TraceStatusCompleted)))"

text \<open>"Start the trace": a failure is logged and the handler goes on without a trace.\<close>

definition start_trace ::
  "turn_env \<Rightarrow> db \<Rightarrow> string \<Rightarrow> string \<Rightarrow> Trace option \<times> db" where
  "start_trace env d sessionID agentName =
     (case StartTrace (env_flt env) d (env_uuid env PStartTrace) (env_clock env PStartTrace)
             sessionID agentName of
        (Inl err, d') \<Rightarrow> (None, d')
      | (Inr tr, d') \<Rightarrow> (Some tr, d'))"

text \<open>The assistant message and the budget update that end both handlers; both errors are
  logged and dropped.\<close>

definition save_assistant_and_budget ::
  "turn_env \<Rightarrow> db \<Rightarrow> string \<Rightarrow> string \<Rightarrow> string \<Rightarrow> int \<Rightarrow> real \<Rightarrow> db" where
  "save_assistant_and_budget env d sessionID role content totalTokens totalCost =
     (let assistantMsg = \<lparr>msg_ID = env_uuid env PAssistantMsg, msg_SessionID = sessionID,
                          msg_Role = role, msg_Content = content, msg_Tokens = totalTokens,
                          msg_CreatedAt = env_clock env PAssistantMsg\<rparr>;
          d1 = snd (SaveMessage (env_flt env) d assistantMsg)
      in snd (UpdateBudget (env_flt env) d1 sessionID totalTokens totalCost))"

section \<open>LLM handler: Chat (unary)\<close>

text \<open>"Record the execution step" with the literal \<open>Sequence: 1\<close>, then the post_llm
  snapshot and the end of the trace; the error of \<open>RecordStep\<close> is dropped.\<close>

definition Chat_record ::
  "turn_env \<Rightarrow> db \<Rightarrow> Trace \<Rightarrow> string \<Rightarrow> Message list \<Rightarrow> LLMConfig option \<Rightarrow> LLMResponse
     \<Rightarrow> db outcome" where
  "Chat_record env d tr sessionID messages llmConfig response =
     (let step = \<lparr>step_ID = env_uuid env PStep, step_TraceID = trace_ID tr, step_Sequence = 1,
                  step_StepType = ''llm_call'', step_Input = json_of_messages messages,
                  step_Output = json_of_response response,
                  step_CostTokens = usage_get (lrs_Usage response) ''total_tokens'',
                  step_CostAPI = lrs_Cost response, step_LatencyMs = env_latency_ms env,
                  step_Snapshot = JNull, step_CreatedAt = 0, step_UpdatedAt = 0\<rparr>;
          d1 = snd (snd (RecordStep (env_flt env) d (env_uuid env PStep) (env_clock env PStep)
                           step))
      in post_llm_snapshot env d1 tr messages llmConfig sessionID (json_of_response response)
           (usage_get (lrs_Usage response) ''total_tokens'') (lrs_Cost response))"

text \<open>"Save user messages": each with the current time, errors dropped.\<close>

fun save_user_messages :: "turn_env \<Rightarrow> db \<Rightarrow> nat \<Rightarrow> Message list \<Rightarrow> db" where
  "save_user_messages env d i [] = d"
| "save_user_messages env d i (m # ms) =
     save_user_messages env
       (snd (SaveMessage (env_flt env) d (m\<lparr>msg_CreatedAt := env_clock env (PUserMsg i)\<rparr>)))
       (Suc i) ms"

text \<open>The handler from "Execute chat" on.\<close>

definition Chat_execute ::
  "LLMServiceConfig \<Rightarrow> upstream \<Rightarrow> turn_env \<Rightarrow> db \<Rightarrow> Trace option \<Rightarrow> string \<Rightarrow> Message list
     \<Rightarrow> LLMConfig option \<Rightarrow> response \<times> db" where
  "Chat_execute c up env d trace sessionID messages llmConfig =
     (case ExecuteChat c up sessionID messages llmConfig of
        Panic \<Rightarrow> (RespPanic, d)
      | Return (Inl err) \<Rightarrow>
          (RespError 500 ''CHAT_EXECUTION_FAILED'',
           (case trace of
              None \<Rightarrow> d
            | Some tr \<Rightarrow> snd (EndTrace (env_flt env) d (env_clock env PEndTrace) (trace_ID tr)
                               TraceStatusFailed)))
      | Return (Inr response) \<Rightarrow>
          (case (case trace of
                   None \<Rightarrow> Return d
                 | Some tr \<Rightarrow> Chat_record env d tr sessionID messages llmConfig response) of
             Panic \<Rightarrow> (RespPanic, d)
           | Return d1 \<Rightarrow>
               let d2 = save_user_messages env d1 0 messages;
                   d3 = save_assistant_and_budget env d2 sessionID (lrs_Role response)
                          (lrs_Content response)
                          (usage_get (lrs_Usage response) ''total_tokens'') (lrs_Cost response)
               in (RespChat \<lparr>chr_Role = lrs_Role response, chr_Content = lrs_Content response,
                              chr_Usage = lrs_Usage response, chr_Cost = lrs_Cost response,
                              chr_ExecutionTime = lrs_ExecutionTime response,
                              chr_ToolCalls = lrs_ToolCalls response,
                              chr_TraceID = (case trace of None \<Rightarrow> [] | Some tr \<Rightarrow> trace_ID tr)\<rparr>,
                   d3)))"

text \<open>
  \<open>Chat\<close>. The activity tracker that the unary handler creates plays no part in the call
  (its context is not the one passed on) and is left out. The trace is started before
  the session is looked up.
\<close>

definition Chat ::
  "LLMServiceConfig \<Rightarrow> upstream \<Rightarrow> turn_env \<Rightarrow> db \<Rightarrow> chat_http_request \<Rightarrow> response \<times> db"
  where
  "Chat c up env d rq =
     (case rq_id rq of
        None \<Rightarrow> (RespError 400 ''INVALID_SESSION_ID'', d)
      | Some sessionID \<Rightarrow>
          (case start_trace env d sessionID ''simple_chat'' of
             (trace, d1) \<Rightarrow>
               (case SessionService_Get (env_flt env) d1 sessionID of
                  (Inl err, d2) \<Rightarrow> (RespError 404 ''SESSION_NOT_FOUND'', d2)
                | (Inr session, d2) \<Rightarrow>
                    (case rq_body rq of
                       None \<Rightarrow> (RespError 400 ''INVALID_INPUT'', d2)
                     | Some req \<Rightarrow>
                         (case build_llmConfig req of
                            Inl err \<Rightarrow> (RespError 400 ''INVALID_CONFIG'', d2)
                          | Inr llmConfig \<Rightarrow>
                              let messages = convert_messages env sessionID 0 (cr_Messages req)
                              in case pre_llm_snapshot env d2 trace messages llmConfig
                                        sessionID of
                                   Panic \<Rightarrow> (RespPanic, d2)
                                 | Return d3 \<Rightarrow>
                                     Chat_execute c up env d3 trace sessionID messages
                                       llmConfig)))))"

section \<open>LLM handler: ChatStream\<close>

text \<open>
  The variables the streaming callback closes over: the activity tracker, the assembled
  content, the totals, the events written to the client so far, the store, and the number
  of chunks seen.
\<close>

record stream_state =
  ss_tracker :: ActivityTracker
  ss_fullContent :: string
  ss_totalTokens :: int
  ss_totalCost :: real
  ss_events :: "sse_event list"
  ss_db :: db
  ss_seen :: nat

text \<open>Writing one \<open>data:\<close> record and flushing; a failed write returns the error and the
  event does not reach the client.\<close>

definition emit :: "turn_env \<Rightarrow> sse_event \<Rightarrow> stream_state \<Rightarrow> go_error option \<times> stream_state" where
  "emit env ev st =
     (if env_wfail env (length (ss_events st)) then (Some (Errorf ''write failed''), st)
      else (None, st\<lparr>ss_events := ss_events st @ [ev]\<rparr>))"

text \<open>The step recorded on a \<open>final_response\<close> chunk, with the literal \<open>Sequence: 1\<close>.\<close>

definition stream_step ::
  "turn_env \<Rightarrow> Trace \<Rightarrow> Message list \<Rightarrow> StreamChunk \<Rightarrow> stream_state \<Rightarrow> ExecutionStep" where
  "stream_step env tr messages chunk st =
     \<lparr>step_ID = env_uuid env PStep, step_TraceID = trace_ID tr, step_Sequence = 1,
      step_StepType = ''llm_call_stream'', step_Input = json_of_messages messages,
      step_Output = JObj [(''message'', JObj [(''role'', JStr ''assistant''),
                                              (''content'', JStr (ss_fullContent st))]),
                          (''usage'', json_of_usage (chunk_Usage chunk)),
                          (''cost'', JNum (chunk_Cost chunk)),
                          (''execution_time'', JNum (chunk_ExecTime chunk))],
      step_CostTokens = ss_totalTokens st, step_CostAPI = ss_totalCost st,
      step_LatencyMs = go_int (chunk_ExecTime chunk * 1000),
      step_Snapshot = JNull, step_CreatedAt = 0, step_UpdatedAt = 0\<rparr>"

definition ChatStream_callback ::
  "turn_env \<Rightarrow> Trace option \<Rightarrow> Message list \<Rightarrow> StreamChunk \<Rightarrow> stream_state
     \<Rightarrow> go_error option \<times> stream_state" where
  "ChatStream_callback env trace messages chunk st0 =
     (let st = st0\<lparr>ss_tracker := UpdateActivity (ss_tracker st0)
                                     (env_clock env (PChunk (ss_seen st0))),
                   ss_seen := Suc (ss_seen st0)\<rparr>
      in if chunk_Type chunk = ''content_delta''
         then emit env (EvContentDelta (chunk_ContentDelta chunk))
                (st\<lparr>ss_fullContent := ss_fullContent st @ chunk_ContentDelta chunk\<rparr>)
         else if chunk_Type chunk = ''tool_call''
         then emit env (EvToolCall (chunk_ToolCall chunk)) st
         else if chunk_Type chunk = ''usage_update''
         then emit env (EvUsageUpdate (chunk_Usage chunk))
                (case chunk_Usage chunk of
                   None \<Rightarrow> st
                 | Some u \<Rightarrow> st\<lparr>ss_totalTokens := usage_get (chunk_Usage chunk) ''total_tokens''\<rparr>)
         else if chunk_Type chunk = ''final_response''
         then let st1 = st\<lparr>ss_totalCost := chunk_Cost chunk\<rparr>;
                  st2 = (case chunk_Usage chunk of
                           None \<Rightarrow> st1
                         | Some u \<Rightarrow>
                             st1\<lparr>ss_totalTokens := usage_get (chunk_Usage chunk) ''total_tokens''\<rparr>);
                  st3 = (case trace of
                           None \<Rightarrow> st2
                         | Some tr \<Rightarrow>
                             st2\<lparr>ss_db := snd (snd (RecordStep (env_flt env) (ss_db st2)
                                       (env_uuid env PStep) (env_clock env PStep)
                                       (stream_step env tr messages chunk st2)))\<rparr>)
              in emit env (EvFinalResponse (chunk_Usage chunk) (chunk_Cost chunk)
                             (chunk_ExecTime chunk)) st3
         else if chunk_Type chunk = ''error''
         then emit env (EvError (FromUpstream (chunk_Error chunk))) st
         else emit env EvNull st)"

text \<open>
  The error message of the streaming handler. Only an error that \<open>is\<close> the sentinel
  \<open>context.Canceled\<close> is examined further: the \<open>select\<close> looks at the tracker's context,
  then at the request's context, and the tracker's state decides between the timeout
  messages. Every other error is reported by its own text.
\<close>

definition stream_error_message :: "turn_env \<Rightarrow> ActivityTracker \<Rightarrow> go_error \<Rightarrow> error_text" where
  "stream_error_message env tracker err =
     (if err = ContextCanceled
      then if env_tracker_done env \<and> (\<not> env_request_done env \<or> env_select_tracker env)
           then if shouldTimeout tracker (env_clock env PError)
                then let timeSinceLastActivity = env_clock env PError - at_lastActivity tracker;
                         totalTime = env_clock env PError - at_totalStart tracker
                     in if timeSinceLastActivity > ActivityTimeout (at_config tracker)
                        then ActivityTimeoutMsg (timeSinceLastActivity div 1000000000)
                        else if totalTime > MaxTotalTimeout (at_config tracker)
                        then TotalTimeoutMsg (totalTime div 60000000000)
                        else StreamTimeoutMsg
                else ClientDisconnectedMsg
           else if env_request_done env then ClientDisconnectedMsg
           else FromError err
      else FromError err)"

text \<open>The handler after a stream that ended with a nil error: the assistant message, the
  budget, the post_llm snapshot, \<open>EndTrace(completed)\<close> and the \<open>done\<close> event.\<close>

definition ChatStream_finish ::
  "turn_env \<Rightarrow> stream_state \<Rightarrow> Trace option \<Rightarrow> string \<Rightarrow> Message list \<Rightarrow> LLMConfig option
     \<Rightarrow> response \<times> sse_event list \<times> db" where
  "ChatStream_finish env st trace sessionID messages llmConfig =
     (let d1 = save_assistant_and_budget env (ss_db st) sessionID ''assistant''
                 (ss_fullContent st) (ss_totalTokens st) (ss_totalCost st)
      in case (case trace of
                 None \<Rightarrow> Return d1
               | Some tr \<Rightarrow>
                   post_llm_snapshot env d1 tr messages llmConfig sessionID
                     (JStr (ss_fullContent st)) (ss_totalTokens st) (ss_totalCost st)) of
           Panic \<Rightarrow> (RespPanic, ss_events st, d1)
         | Return d2 \<Rightarrow>
             (RespStream, ss_events (snd (emit env EvDone (st\<lparr>ss_db := d2\<rparr>))), d2))"

text \<open>The handler from the SSE headers on: the tracker, the upstream call with the
  callback, and the two ways out.\<close>

definition ChatStream_run ::
  "LLMServiceConfig \<Rightarrow> upstream \<Rightarrow> turn_env \<Rightarrow> db \<Rightarrow> Trace option \<Rightarrow> string \<Rightarrow> Message list
     \<Rightarrow> LLMConfig option \<Rightarrow> response \<times> sse_event list \<times> db" where
  "ChatStream_run c up env d trace sessionID messages llmConfig =
     (if \<not> env_flusher env then (RespError 500 ''STREAMING_UNSUPPORTED'', [], d)
      else
        let activityTracker = NewActivityTracker getDefaultStreamTimeoutConfig
                                (env_clock env PTracker);
            st0 = \<lparr>ss_tracker = activityTracker, ss_fullContent = [], ss_totalTokens = 0,
                   ss_totalCost = 0, ss_events = [], ss_db = d, ss_seen = 0\<rparr>
        in case ExecuteChatStream c up sessionID messages llmConfig
                  (ChatStream_callback env trace messages) st0 of
             (Some err, st) \<Rightarrow>
               (RespStream,
                ss_events (snd (emit env
                   (EvError (stream_error_message env (ss_tracker st) err)) st)),
                ss_db st)
           | (None, st) \<Rightarrow> ChatStream_finish env st trace sessionID messages llmConfig)"

definition ChatStream ::
  "LLMServiceConfig \<Rightarrow> upstream \<Rightarrow> turn_env \<Rightarrow> db \<Rightarrow> chat_http_request
     \<Rightarrow> response \<times> sse_event list \<times> db" where
  "ChatStream c up env d rq =
     (case rq_id rq of
        None \<Rightarrow> (RespError 400 ''INVALID_SESSION_ID'', [], d)
      | Some sessionID \<Rightarrow>
          (case start_trace env d sessionID ''stream_chat'' of
             (trace, d1) \<Rightarrow>
               (case SessionService_Get (env_flt env) d1 sessionID of
                  (Inl err, d2) \<Rightarrow> (RespError 404 ''SESSION_NOT_FOUND'', [], d2)
                | (Inr session, d2) \<Rightarrow>
                    (case rq_body rq of
                       None \<Rightarrow> (RespError 400 ''INVALID_INPUT'', [], d2)
                     | Some req \<Rightarrow>
                         (case build_llmConfig req of
                            Inl err \<Rightarrow> (RespError 400 ''INVALID_CONFIG'', [], d2)
                          | Inr llmConfig \<Rightarrow>
                              let messages = convert_messages env sessionID 0 (cr_Messages req)
                              in case pre_llm_snapshot env d2 trace messages llmConfig
                                        sessionID of
                                   Panic \<Rightarrow> (RespPanic, [], d2)
                                 | Return d3 \<Rightarrow>
                                     ChatStream_run c up env d3 trace sessionID messages
                                       llmConfig)))))"

section \<open>Vocabulary of the statements\<close>

text \<open>
  The definitions of this section are not code of the repository: they name what the
  statements below talk about (a store that never fails, the calls a run added to the
  call log, example rows).
\<close>

definition no_fault :: "nat \<Rightarrow> bool" where
  "no_fault k = False"

definition new_calls :: "db \<Rightarrow> db \<Rightarrow> repo_call list" where
  "new_calls d d' = drop (length (db_calls d)) (db_calls d')"

fun is_UpdateCost :: "repo_call \<Rightarrow> bool" where
  "is_UpdateCost (TraceUpdateCost _ _ _) = True"
| "is_UpdateCost _ = False"

text \<open>The first two writes of \<open>RecordStep\<close> to the step it is given: the identifier when
  it is empty, then both timestamps.\<close>

definition stamped :: "string \<Rightarrow> Time \<Rightarrow> ExecutionStep \<Rightarrow> ExecutionStep" where
  "stamped uuid now st =
     (if step_ID st = [] then st\<lparr>step_ID := uuid\<rparr> else st)
       \<lparr>step_CreatedAt := now, step_UpdatedAt := now\<rparr>"

text \<open>What \<open>UPDATE traces SET status, ended_at WHERE id\<close> does to one row.\<close>

definition set_terminal :: "string \<Rightarrow> TraceStatus \<Rightarrow> Time \<Rightarrow> Trace \<Rightarrow> Trace" where
  "set_terminal traceID status now tr =
     (if trace_ID tr = traceID
      then tr\<lparr>trace_Status := status, trace_EndedAt := Some now\<rparr> else tr)"

definition ex_trace :: Trace where
  "ex_trace = \<lparr>trace_ID = ''t1'', trace_SessionID = ''s1'', trace_AgentName = ''stream_chat'',
      trace_Status = TraceStatusRunning, trace_StartedAt = 100, trace_EndedAt = None,
      trace_CostTokens = 0, trace_CostAPI = 0, trace_Metadata = JNull, trace_CreatedAt = 100\<rparr>"

definition ex_db :: db where
  "ex_db = \<lparr>db_sessions = [], db_messages = [], db_traces = [ex_trace], db_steps = [],
             db_calls = []\<rparr>"

definition ex_db_completed :: db where
  "ex_db_completed = snd (EndTrace no_fault ex_db 110 ''t1'' TraceStatusCompleted)"

definition ex_step :: ExecutionStep where
  "ex_step = \<lparr>step_ID = [], step_TraceID = ''t1'', step_Sequence = 1,
      step_StepType = ''llm_call'', step_Input = JNull, step_Output = JNull,
      step_CostTokens = 10, step_CostAPI = 0, step_LatencyMs = 7,
      step_Snapshot = JNull, step_CreatedAt = 0, step_UpdatedAt = 0\<rparr>"

text \<open>\<open>fed m es\<close>: at every poll the monitor performs in the run \<open>es\<close> from \<open>m\<close>, the time since
  the last activity is at most the activity timeout.\<close>

fun fed :: "monitored \<Rightarrow> tracker_event list \<Rightarrow> bool" where
  "fed m [] = True"
| "fed m (Tick now # es) =
     ((at_done (mon_tracker m)
        \<or> now - at_lastActivity (mon_tracker m) \<le> ActivityTimeout (at_config (mon_tracker m)))
      \<and> fed (monitor_step m (Tick now)) es)"
| "fed m (e # es) = fed (monitor_step m e) es"

definition ex_timeouts :: StreamTimeoutConfig where
  "ex_timeouts = \<lparr>InitialTimeout = 120, ActivityTimeout = 30, MaxTotalTimeout = 100\<rparr>"

definition ex_run :: "tracker_event list" where
  "ex_run = [Tick 10, Activity 25, Tick 40, Activity 60, Tick 80, Activity 90, Tick 101,
             Tick 102]"


definition summary_of :: "Trace list \<Rightarrow> CostSummary" where
  "summary_of traces =
     \<lparr>TotalCost = sum_list (map trace_CostAPI traces),
      AvgCost = sum_list (map trace_CostAPI traces) / real (length traces),
      MaxCost = Max (set (map trace_CostAPI traces)),
      MinCost = Min (set (map trace_CostAPI traces)),
      TotalTokens = wrap64 (sum_list (map trace_CostTokens traces)),
      TraceCount = int (length traces),
      CostPerToken = (if wrap64 (sum_list (map trace_CostTokens traces)) > 0
         then sum_list (map trace_CostAPI traces)
                / real_of_int (wrap64 (sum_list (map trace_CostTokens traces)))
         else 0)\<rparr>"


fun ex_insert :: "(Trace \<Rightarrow> Trace \<Rightarrow> bool) \<Rightarrow> Trace \<Rightarrow> Trace list \<Rightarrow> Trace list" where
  "ex_insert lt x [] = [x]"
| "ex_insert lt x (y # ys) = (if lt x y then x # y # ys else y # ex_insert lt x ys)"

definition ex_sortSlice :: "(Trace \<Rightarrow> Trace \<Rightarrow> bool) \<Rightarrow> Trace list \<Rightarrow> Trace list" where
  "ex_sortSlice lt xs = foldr (ex_insert lt) xs []"

definition ex_formatDay :: "Time \<Rightarrow> string" where
  "ex_formatDay t = ''2025-01-01''"

definition ex_formatRFC3339 :: "Time \<Rightarrow> string" where
  "ex_formatRFC3339 t = ''2025-01-01T00:00:00Z''"

definition ex_lib :: stdlib where
  "ex_lib = \<lparr>lib_sortSlice = ex_sortSlice, lib_formatDay = ex_formatDay,
             lib_formatRFC3339 = ex_formatRFC3339\<rparr>"

definition ex_cost_trace :: "string \<Rightarrow> Time \<Rightarrow> int \<Rightarrow> real \<Rightarrow> Trace" where
  "ex_cost_trace tid t tokens cost =
     \<lparr>trace_ID = tid, trace_SessionID = ''s1'', trace_AgentName = ''simple_chat'',
      trace_Status = TraceStatusCompleted, trace_StartedAt = t, trace_EndedAt = Some (t + 5),
      trace_CostTokens = tokens, trace_CostAPI = cost, trace_Metadata = JNull,
      trace_CreatedAt = t\<rparr>"

definition ex_cost_db :: db where
  "ex_cost_db = \<lparr>db_sessions = [], db_messages = [],
      db_traces = [ex_cost_trace ''a'' 100 10 (1/20), ex_cost_trace ''b'' 200 40 (1/5),
                   ex_cost_trace ''c'' 300 300 (3/2)],
      db_steps = [], db_calls = []\<rparr>"


definition zero_result :: "string \<Rightarrow> CostAnalysisResult" where
  "zero_result sessionID =
     \<lparr>res_SessionID = sessionID,
      res_Summary = Some \<lparr>TotalCost = 0, AvgCost = 0, MaxCost = 0, MinCost = 0,
                           TotalTokens = 0, TraceCount = 0, CostPerToken = 0\<rparr>,
      res_Breakdown = None, res_Trends = None, res_Hotspots = [], res_Suggestions = []\<rparr>"

definition extremum_calls_nonempty :: "calc_call list \<Rightarrow> bool" where
  "extremum_calls_nonempty calls =
     (CallMax [] \<notin> set calls \<and> CallMin [] \<notin> set calls)"

text \<open>An example turn: a session with a token quota of 5, a request naming provider and
  model, an environment in which the store never fails, and five back-ends.\<close>

definition ex_session :: Session where
  "ex_session = \<lparr>sess_ID = ''s1'', sess_UserID = ''u1'', sess_Status = ''active'',
      sess_Budget = \<lparr>budget_TotalTokens = 5, budget_UsedTokens = 0, budget_TotalCost = 0,
                      budget_UsedCost = 0\<rparr>,
      sess_CreatedAt = 1, sess_UpdatedAt = 1\<rparr>"

definition ex_turn_db :: db where
  "ex_turn_db = \<lparr>db_sessions = [ex_session], db_messages = [], db_traces = [], db_steps = [],
                  db_calls = []\<rparr>"

definition ex_clock :: "point \<Rightarrow> Time" where
  "ex_clock p =
     (case p of
        PStartTrace \<Rightarrow> 100 | PUserMsg i \<Rightarrow> 170 | PPreSnapshot \<Rightarrow> 110 | PTracker \<Rightarrow> 120
      | PChunk i \<Rightarrow> 130 + int i | PStep \<Rightarrow> 140 | PError \<Rightarrow> 150 | PAssistantMsg \<Rightarrow> 160
      | PPostSnapshot \<Rightarrow> 180 | PEndTrace \<Rightarrow> 190)"

definition ex_uuid :: "point \<Rightarrow> string" where
  "ex_uuid p =
     (case p of
        PStartTrace \<Rightarrow> ''trace-1'' | PUserMsg i \<Rightarrow> ''user-msg'' | PPreSnapshot \<Rightarrow> ''snap-pre''
      | PTracker \<Rightarrow> [] | PChunk i \<Rightarrow> [] | PStep \<Rightarrow> ''step-1'' | PError \<Rightarrow> []
      | PAssistantMsg \<Rightarrow> ''assistant-msg'' | PPostSnapshot \<Rightarrow> ''snap-post'' | PEndTrace \<Rightarrow> [])"

definition ex_snapshot_json :: "Snapshot \<Rightarrow> json" where
  "ex_snapshot_json snap =
     JObj [(''stage'', JStr (snap_Stage snap)), (''timestamp'', JInt (snap_Timestamp snap)),
           (''input'', snap_Input snap), (''output'', snap_Output snap),
           (''state'', snap_State snap), (''context'', snap_Context snap)]"

definition ex_marshal :: "Snapshot \<Rightarrow> json option" where
  "ex_marshal snap = Some (ex_snapshot_json snap)"

definition ex_env :: turn_env where
  "ex_env = \<lparr>env_flt = no_fault, env_clock = ex_clock, env_uuid = ex_uuid,
              env_marshal = ex_marshal, env_latency_ms = 1500, env_flusher = True,
              env_wfail = no_fault, env_tracker_done = False, env_request_done = False,
              env_select_tracker = False\<rparr>"

definition ex_getenv :: "string \<Rightarrow> string \<times> string" where
  "ex_getenv p = (''key'', ''http://upstream'')"

definition ex_service :: LLMServiceConfig where
  "ex_service = \<lparr>llm_DefaultProvider = ''deepseek'', llm_DefaultModel = ''deepseek-chat'',
                  llm_getenv = ex_getenv\<rparr>"

definition ex_request :: chat_http_request where
  "ex_request = \<lparr>rq_id = Some ''s1'',
      rq_body = Some \<lparr>cr_Messages = [(''user'', ''hi'')], cr_Provider = ''openai'',
                       cr_Model = ''gpt-3.5-turbo'', cr_Temperature = 0.7, cr_MaxTokens = 100\<rparr>\<rparr>"

definition ex_request_no_config :: chat_http_request where
  "ex_request_no_config = \<lparr>rq_id = Some ''s1'',
      rq_body = Some \<lparr>cr_Messages = [(''user'', ''hi'')], cr_Provider = [], cr_Model = [],
                       cr_Temperature = 0, cr_MaxTokens = 0\<rparr>\<rparr>"

definition ex_pb :: "pb_type \<Rightarrow> pb_stream_response" where
  "ex_pb t = \<lparr>pbs_Type = t, pbs_SessionId = ''s1'', pbs_ContentDelta = [],
               pbs_ToolCall = None, pbs_Usage = None, pbs_Cost = 0, pbs_ExecutionTime = 0,
               pbs_ErrorMessage = []\<rparr>"

definition ex_delta :: "string \<Rightarrow> pb_stream_response" where
  "ex_delta txt = (ex_pb CONTENT_DELTA)\<lparr>pbs_ContentDelta := txt\<rparr>"

definition ex_final :: pb_stream_response where
  "ex_final = (ex_pb FINAL_RESPONSE)\<lparr>pbs_Cost := 2 / 10000, pbs_ExecutionTime := 3 / 2,
      pbs_Usage := Some \<lparr>pbu_PromptTokens = 4, pbu_CompletionTokens = 6,
                          pbu_TotalTokens = 10\<rparr>\<rparr>"

definition ex_unary_response :: pb_response where
  "ex_unary_response = \<lparr>pbr_SessionId = ''s1'', pbr_Message = Some (''assistant'', ''hello''),
      pbr_Usage = Some \<lparr>pbu_PromptTokens = 4, pbu_CompletionTokens = 6, pbu_TotalTokens = 10\<rparr>,
      pbr_Cost = 2 / 10000, pbr_ExecutionTime = 3 / 2, pbr_ToolCalls = []\<rparr>"

definition ex_stream_ok :: "pb_request \<Rightarrow> string + (pb_stream_response list \<times> recv_end)" where
  "ex_stream_ok q = Inr ([ex_delta ''He'', ex_delta ''llo'', ex_final], RecvEOF)"

definition ex_stream_broken :: "pb_request \<Rightarrow> string + (pb_stream_response list \<times> recv_end)"
  where
  "ex_stream_broken q = Inr ([ex_delta ''He''], RecvError OtherCode ''connection reset'')"

definition ex_stream_error_chunk ::
  "pb_request \<Rightarrow> string + (pb_stream_response list \<times> recv_end)" where
  "ex_stream_error_chunk q =
     Inr ([ex_delta ''He'', (ex_pb ERROR)\<lparr>pbs_ErrorMessage := ''model overloaded''\<rparr>], RecvEOF)"

definition ex_stream_cancelled ::
  "pb_request \<Rightarrow> string + (pb_stream_response list \<times> recv_end)" where
  "ex_stream_cancelled q = Inr ([ex_delta ''He''], RecvError Canceled ''context canceled'')"

definition ex_unary_ok :: "pb_request \<Rightarrow> string + pb_response" where
  "ex_unary_ok q = Inr ex_unary_response"

definition ex_upstream ::
  "(pb_request \<Rightarrow> string + (pb_stream_response list \<times> recv_end)) \<Rightarrow> upstream" where
  "ex_upstream stream = \<lparr>up_closed = False, up_conn_nil = False, up_stream = stream,
                          up_unary = ex_unary_ok\<rparr>"

text \<open>What the statements read from a store: the status of each trace, the budget of
  the rows of a session, and identifier, sequence number and type of each stored step.\<close>

definition statuses :: "db \<Rightarrow> (string \<times> TraceStatus) list" where
  "statuses d = map (\<lambda>tr. (trace_ID tr, trace_Status tr)) (db_traces d)"

definition status_of :: "db \<Rightarrow> string \<Rightarrow> TraceStatus option" where
  "status_of d traceID = map_of (statuses d) traceID"

definition budgets :: "db \<Rightarrow> string \<Rightarrow> Budget list" where
  "budgets d sid = map sess_Budget (filter (\<lambda>se. sess_ID se = sid) (db_sessions d))"

definition step_rows :: "db \<Rightarrow> (string \<times> int \<times> string) list" where
  "step_rows d = map (\<lambda>st. (step_ID st, step_Sequence st, step_StepType st)) (db_steps d)"

text \<open>What the statements observe of a finished turn on the example session: the
  response, the events sent, the status of the trace, the session's budget and the
  stored steps.\<close>

definition observe_stream ::
  "response \<times> sse_event list \<times> db
     \<Rightarrow> response \<times> sse_event list \<times> TraceStatus option \<times> Budget list
         \<times> (string \<times> int \<times> string) list" where
  "observe_stream r =
     (fst r, fst (snd r), status_of (snd (snd r)) ''trace-1'', budgets (snd (snd r)) ''s1'',
      step_rows (snd (snd r)))"

definition is_success :: "response \<Rightarrow> bool" where
  "is_success r = (case r of RespChat body \<Rightarrow> True | _ \<Rightarrow> False)"

definition observe_unary ::
  "response \<times> db
     \<Rightarrow> bool \<times> TraceStatus option \<times> Budget list \<times> (string \<times> int \<times> string) list" where
  "observe_unary r =
     (is_success (fst r), status_of (snd r) ''trace-1'', budgets (snd r) ''s1'',
      step_rows (snd r))"


definition add_used :: "int \<Rightarrow> real \<Rightarrow> Budget \<Rightarrow> Budget" where
  "add_used tokens cost b =
     b\<lparr>budget_UsedTokens := budget_UsedTokens b + tokens,
       budget_UsedCost := budget_UsedCost b + cost\<rparr>"


text \<open>The example environment after the supervisor has cancelled the tracker's context,
  and a snapshot for the tracer.\<close>

definition ex_env_cancelled :: turn_env where
  "ex_env_cancelled = ex_env\<lparr>env_tracker_done := True\<rparr>"

definition ex_snapshot :: "string \<Rightarrow> Snapshot" where
  "ex_snapshot stage = \<lparr>snap_Stage = stage, snap_Timestamp = 0, snap_Input = JNull,
      snap_Output = JNull, snap_State = JNull, snap_Context = JNull\<rparr>"

chapter \<open>Properties\<close>

section \<open>Provider inference: the table the code realises\<close>

text \<open>
  C6 (as stated): every model name with the prefix \<open>claude-3-\<close> maps to anthropic.
  The code compares against four full names only, so a name such as \<open>claude-3-opus\<close>,
  which carries the prefix, falls through to the default.
\<close>

theorem inferProvider_prefix_counterexample:
  "prefix ''claude-3-'' ''claude-3-opus''
   \<and> inferProviderFromModel ''claude-3-opus'' = LLMProviderOpenAI
   \<and> inferProviderFromModel ''claude-3-opus'' \<noteq> LLMProviderAnthropic"
  by (simp add: inferProviderFromModel_def)

text \<open>
  C6 (amended): the inference is a closed table of exact names. A model name maps to
  anthropic exactly when it is one of the four listed Claude names, to deepseek, qwen,
  ernie and chatglm exactly when it is one of their listed names, and to openai exactly
  when it is none of the listed names.
\<close>

theorem inferProvider_exact_table:
  "(inferProviderFromModel m = LLMProviderDeepSeek
      \<longleftrightarrow> m \<in> {''deepseek-chat'', ''deepseek-reasoner''})
   \<and> (inferProviderFromModel m = LLMProviderAnthropic
      \<longleftrightarrow> m \<in> {''claude-3-opus-20240229'', ''claude-3-sonnet-20240229'',
               ''claude-3-haiku-20240307'', ''claude-3-5-sonnet-20241022''})
   \<and> (inferProviderFromModel m = LLMProviderQwen
      \<longleftrightarrow> m \<in> {''qwen-turbo'', ''qwen-plus'', ''qwen-max'', ''qwen-max-longcontext''})
   \<and> (inferProviderFromModel m = LLMProviderErnie
      \<longleftrightarrow> m \<in> {''ernie-bot'', ''ernie-bot-turbo'', ''ernie-bot-4'', ''ernie-speed''})
   \<and> (inferProviderFromModel m = LLMProviderChatGLM
      \<longleftrightarrow> m \<in> {''glm-4'', ''glm-4v'', ''glm-3-turbo''})
   \<and> (inferProviderFromModel m = LLMProviderOpenAI
      \<longleftrightarrow> m \<notin> {''deepseek-chat'', ''deepseek-reasoner'',
               ''claude-3-opus-20240229'', ''claude-3-sonnet-20240229'',
               ''claude-3-haiku-20240307'', ''claude-3-5-sonnet-20241022'',
               ''qwen-turbo'', ''qwen-plus'', ''qwen-max'', ''qwen-max-longcontext'',
               ''ernie-bot'', ''ernie-bot-turbo'', ''ernie-bot-4'', ''ernie-speed'',
               ''glm-4'', ''glm-4v'', ''glm-3-turbo''})"
  unfolding inferProviderFromModel_def by auto

section \<open>Tracer: effects of the repository calls\<close>
lemma new_calls_append: "db_calls d' = db_calls d @ cs \<Longrightarrow> new_calls d d' = cs"
  by (simp add: new_calls_def)

lemma new_calls_same [simp]: "new_calls d d = []"
  by (simp add: new_calls_def)

lemma step_Create_effect:
  assumes "step_Create flt d st = (e, d')"
  shows "db_calls d' = db_calls d @ [StepCreate st]"
    and "db_traces d' = db_traces d"
    and "db_steps d' = (if e = None then db_steps d @ [st] else db_steps d)"
  using assms by (auto simp: step_Create_def called_def split: if_splits)

lemma trace_UpdateCost_effect:
  assumes "trace_UpdateCost flt d tid n c = (e, d')"
  shows "db_calls d' = db_calls d @ [TraceUpdateCost tid n c]"
    and "db_steps d' = db_steps d"
  using assms by (auto simp: trace_UpdateCost_def called_def split: if_splits)

lemma getNextSequence_effect:
  assumes "getNextSequence flt d tid = (r, d')"
  shows "db_calls d' = db_calls d @ [StepGetByTraceID tid]"
    and "db_steps d' = db_steps d"
    and "db_traces d' = db_traces d"
  using assms
  by (auto simp: getNextSequence_def step_GetByTraceID_def called_def split: if_splits)

lemma RecordStep_no_trace:
  "step_TraceID st = [] \<Longrightarrow>
   RecordStep flt d uuid now st =
     (Some (Errorf ''traceID is required''),
      (if step_ID st = [] then st\<lparr>step_ID := uuid\<rparr> else st), d)"
  by (simp add: RecordStep_def)

lemma RecordStep_stamped:
  "step_TraceID st \<noteq> [] \<Longrightarrow>
   RecordStep flt d uuid now st =
     (case (if step_Sequence st = 0
            then (case getNextSequence flt d (step_TraceID st) of
                    (Inl err, d1) \<Rightarrow> Inl (err, d1)
                  | (Inr sequence, d1) \<Rightarrow>
                      Inr ((stamped uuid now st)\<lparr>step_Sequence := sequence\<rparr>, d1))
            else Inr (stamped uuid now st, d)) of
        Inl (err, d1) \<Rightarrow>
          (Some (Wrapf ''failed to get sequence: '' err), stamped uuid now st, d1)
      | Inr (step3, d1) \<Rightarrow>
          (case step_Create flt d1 step3 of
             (Some err, d2) \<Rightarrow> (Some (Wrapf ''failed to record step: '' err), step3, d2)
           | (None, d2) \<Rightarrow>
               if step_CostTokens step3 > 0 \<or> step_CostAPI step3 > 0
               then (case trace_UpdateCost flt d2 (step_TraceID step3)
                            (step_CostTokens step3) (step_CostAPI step3) of
                       (Some err, d3) \<Rightarrow>
                         (Some (Wrapf ''failed to update trace cost: '' err), step3, d3)
                     | (None, d3) \<Rightarrow> (None, step3, d3))
               else (None, step3, d2)))"
  unfolding RecordStep_def stamped_def Let_def
  by (cases "step_ID st = []") simp_all

lemma stamped_fields [simp]:
  "step_ID (stamped uuid now st) = (if step_ID st = [] then uuid else step_ID st)"
  "step_TraceID (stamped uuid now st) = step_TraceID st"
  "step_Sequence (stamped uuid now st) = step_Sequence st"
  "step_CostTokens (stamped uuid now st) = step_CostTokens st"
  "step_CostAPI (stamped uuid now st) = step_CostAPI st"
  "step_CreatedAt (stamped uuid now st) = now"
  "step_UpdatedAt (stamped uuid now st) = now"
  by (simp_all add: stamped_def)

lemma RecordStep_seq_cases:
  assumes "step_TraceID st \<noteq> []"
  obtains
    (seq_failed) e d1 where "step_Sequence st = 0"
      "getNextSequence flt d (step_TraceID st) = (Inl e, d1)"
      "RecordStep flt d uuid now st =
         (Some (Wrapf ''failed to get sequence: '' e), stamped uuid now st, d1)"
  | (seq_given) step3 d1 pre where
      "db_steps d1 = db_steps d"
      "pre = [] \<or> pre = [StepGetByTraceID (step_TraceID st)]"
      "db_calls d1 = db_calls d @ pre"
      "\<exists>n. step3 = (stamped uuid now st)\<lparr>step_Sequence := n\<rparr>"
      "RecordStep flt d uuid now st =
        (case step_Create flt d1 step3 of
           (Some err, d2) \<Rightarrow> (Some (Wrapf ''failed to record step: '' err), step3, d2)
         | (None, d2) \<Rightarrow>
             if step_CostTokens step3 > 0 \<or> step_CostAPI step3 > 0
             then (case trace_UpdateCost flt d2 (step_TraceID step3)
                          (step_CostTokens step3) (step_CostAPI step3) of
                     (Some err, d3) \<Rightarrow>
                       (Some (Wrapf ''failed to update trace cost: '' err), step3, d3)
                   | (None, d3) \<Rightarrow> (None, step3, d3))
             else (None, step3, d2))"
proof (cases "step_Sequence st = 0")
  case False
  have "stamped uuid now st = (stamped uuid now st)\<lparr>step_Sequence := step_Sequence st\<rparr>"
    by (simp add: stamped_def)
  then have ex: "\<exists>n. stamped uuid now st = (stamped uuid now st)\<lparr>step_Sequence := n\<rparr>" ..
  show ?thesis
    by (rule seq_given [of d "[]" "stamped uuid now st"])
       (use False assms ex in \<open>simp_all add: RecordStep_stamped\<close>)
next
  case True
  obtain r d1 where g: "getNextSequence flt d (step_TraceID st) = (r, d1)"
    by (cases "getNextSequence flt d (step_TraceID st)")
  note eff = getNextSequence_effect [OF g]
  show ?thesis
  proof (cases r)
    case (Inl e)
    show ?thesis
      by (rule seq_failed [of e d1])
         (use True assms g Inl in \<open>simp_all add: RecordStep_stamped\<close>)
  next
    case (Inr n)
    show ?thesis
      by (rule seq_given [of d1 "[StepGetByTraceID (step_TraceID st)]" "(stamped uuid now st)\<lparr>step_Sequence := n\<rparr>"])
         (use True assms g Inr eff in \<open>auto simp add: RecordStep_stamped\<close>)
  qed
qed

lemma set_terminal_twice:
  "set_terminal traceID s2 now2 (set_terminal traceID s1 now1 tr) = set_terminal traceID s2 now2 tr"
  by (simp add: set_terminal_def)

lemma called_fields [simp]:
  "db_calls (called c d) = db_calls d @ [c]"
  "db_traces (called c d) = db_traces d"
  "db_steps (called c d) = db_steps d"
  "db_sessions (called c d) = db_sessions d"
  "db_messages (called c d) = db_messages d"
  by (simp_all add: called_def)

lemma EndTrace_ok:
  "\<not> flt (length (db_calls d)) \<Longrightarrow>
   EndTrace flt d now traceID s =
     (None, called (TraceUpdateStatus traceID s now)
              (d\<lparr>db_traces := map (set_terminal traceID s now) (db_traces d)\<rparr>))"
  unfolding EndTrace_def trace_UpdateStatus_def faulty_def set_terminal_def
  by simp

section \<open>Terminal transition of a trace\<close>

text \<open>
  C3 (as stated): a second \<open>EndTrace\<close> with the same terminal status leaves status and
  \<open>endedAt\<close> as they were, and one with a different terminal status fails with a Conflict
  error. On a trace completed at time 110, \<open>EndTrace\<close> at time 120 returns no error in
  both cases; with the same status it moves \<open>endedAt\<close> to 120, with \<open>failed\<close> it replaces
  the stored status.
\<close>

theorem EndTrace_terminal_counterexample:
  "map trace_Status (db_traces ex_db_completed) = [TraceStatusCompleted]
   \<and> map trace_EndedAt (db_traces ex_db_completed) = [Some 110]
   \<and> fst (EndTrace no_fault ex_db_completed 120 ''t1'' TraceStatusCompleted) = None
   \<and> map trace_EndedAt
        (db_traces (snd (EndTrace no_fault ex_db_completed 120 ''t1'' TraceStatusCompleted)))
       = [Some 120]
   \<and> fst (EndTrace no_fault ex_db_completed 120 ''t1'' TraceStatusFailed) = None
   \<and> map trace_Status
        (db_traces (snd (EndTrace no_fault ex_db_completed 120 ''t1'' TraceStatusFailed)))
       = [TraceStatusFailed]"
  by (simp add: ex_db_completed_def EndTrace_def trace_UpdateStatus_def faulty_def no_fault_def
        called_def ex_db_def ex_trace_def)

text \<open>
  C3 (amended): \<open>EndTrace\<close> / \<open>UpdateStatus\<close> write unconditionally. When the store accepts
  the calls, \<open>EndTrace(t, s)\<close> at time \<open>now\<close> returns no error and sets status \<open>s\<close> and
  \<open>endedAt = now\<close> on the trace with identifier \<open>t\<close>, whatever its status was, leaving every
  other trace as it is; of two consecutive calls the later one determines the stored
  state (its status and its \<open>endedAt\<close>), and neither fails with a Conflict.
\<close>

theorem EndTrace_last_write_wins:
  assumes "\<not> flt (length (db_calls d))" and "\<not> flt (Suc (length (db_calls d)))"
  shows "fst (EndTrace flt d now1 traceID s1) = None
    \<and> db_traces (snd (EndTrace flt d now1 traceID s1))
        = map (set_terminal traceID s1 now1) (db_traces d)
    \<and> fst (EndTrace flt (snd (EndTrace flt d now1 traceID s1)) now2 traceID s2) = None
    \<and> db_traces (snd (EndTrace flt (snd (EndTrace flt d now1 traceID s1)) now2 traceID s2))
        = map (set_terminal traceID s2 now2) (db_traces d)"
proof -
  let ?d1 = "called (TraceUpdateStatus traceID s1 now1)
              (d\<lparr>db_traces := map (set_terminal traceID s1 now1) (db_traces d)\<rparr>)"
  have e1: "EndTrace flt d now1 traceID s1 = (None, ?d1)"
    using assms(1) by (rule EndTrace_ok)
  have "\<not> flt (length (db_calls ?d1))"
    using assms(2) by simp
  then have e2: "EndTrace flt ?d1 now2 traceID s2 =
      (None, called (TraceUpdateStatus traceID s2 now2)
              (?d1\<lparr>db_traces := map (set_terminal traceID s2 now2) (db_traces ?d1)\<rparr>))"
    by (rule EndTrace_ok)
  show ?thesis
    unfolding e1 snd_conv fst_conv e2
    by (simp add: set_terminal_twice comp_def)
qed

theorem EndTrace_last_write_wins_witness:
  "fst (EndTrace no_fault ex_db 110 ''t1'' TraceStatusCompleted) = None
   \<and> map trace_Status (db_traces (snd (EndTrace no_fault (snd (EndTrace no_fault ex_db 110 ''t1'' TraceStatusCompleted))
         120 ''t1'' TraceStatusFailed)))
      = [TraceStatusFailed]"
proof -
  have a: "\<not> no_fault (length (db_calls ex_db))" "\<not> no_fault (Suc (length (db_calls ex_db)))"
    by (simp_all add: no_fault_def)
  show ?thesis
  using EndTrace_last_write_wins [OF a, of 110 "''t1''" TraceStatusCompleted 120 TraceStatusFailed]
  by (simp add: set_terminal_def ex_db_def ex_trace_def)
qed

section \<open>RecordStep\<close>

text \<open>
  C9: \<open>RecordStep\<close> returns the error "traceID is required" for a step whose \<open>TraceID\<close> is
  empty and leaves the store as it is, without any repository call. The step gets the
  fresh identifier exactly when its \<open>ID\<close> is empty. Whenever the trace identifier is
  present, \<open>CreatedAt\<close> and \<open>UpdatedAt\<close> are the current time, and the row handed to the
  insert is this stamped step. Among the calls of the run, the cost accumulator
  \<open>UpdateCost\<close> occurs once, with the step's tokens and cost, when the step was inserted
  and declares \<open>CostTokens > 0\<close> or \<open>CostAPI > 0\<close>, and does not occur otherwise.
\<close>

theorem RecordStep_contract:
  assumes R: "RecordStep flt d uuid now st = (err, st', d')"
  shows
    "(step_TraceID st = [] \<longrightarrow> err = Some (Errorf ''traceID is required'') \<and> d' = d)
   \<and> step_ID st' = (if step_ID st = [] then uuid else step_ID st)
   \<and> (step_TraceID st \<noteq> [] \<longrightarrow> step_CreatedAt st' = now \<and> step_UpdatedAt st' = now)
   \<and> (\<forall>row. StepCreate row \<in> set (new_calls d d') \<longrightarrow> row = st' \<and> step_CreatedAt row = now \<and> step_UpdatedAt row = now)
   \<and> filter is_UpdateCost (new_calls d d') =
       (if step_TraceID st \<noteq> [] \<and> db_steps d' \<noteq> db_steps d
           \<and> (step_CostTokens st > 0 \<or> step_CostAPI st > 0)
        then [TraceUpdateCost (step_TraceID st) (step_CostTokens st) (step_CostAPI st)] else [])"
proof (cases "step_TraceID st = []")
  case True
  with R show ?thesis by (auto simp: RecordStep_no_trace)
next
  case False
  then show ?thesis
  proof (cases rule: RecordStep_seq_cases [where flt = flt and d = d and uuid = uuid and now = now])
    case (seq_failed e d1)
    with R False getNextSequence_effect(1,2) [OF seq_failed(2)] show ?thesis
      by (auto simp: new_calls_append)
  next
    case (seq_given step3 d1 pre)
    obtain e2 d2 where c: "step_Create flt d1 step3 = (e2, d2)"
      by (cases "step_Create flt d1 step3")
    note ce = step_Create_effect [OF c]
    from seq_given(4) obtain n where s3: "step3 = (stamped uuid now st)\<lparr>step_Sequence := n\<rparr>" ..
    have calls2: "db_calls d2 = db_calls d @ pre @ [StepCreate step3]"
      using ce(1) seq_given(3) by simp
    show ?thesis
    proof (cases e2)
      case (Some e)
      with R seq_given c have "err = Some (Wrapf ''failed to record step: '' e)" "st' = step3" "d' = d2"
        by simp_all
      with Some ce seq_given(1,2) calls2 s3 False show ?thesis
        by (auto simp: new_calls_append)
    next
      case None
      show ?thesis
      proof (cases "step_CostTokens step3 > 0 \<or> step_CostAPI step3 > 0")
        case nocost: False
        with R seq_given c None have "err = None" "st' = step3" "d' = d2"
          by simp_all
        with None nocost ce seq_given(1,2) calls2 s3 False show ?thesis
          by (auto simp: new_calls_append)
      next
        case cost: True
        obtain e3 d3 where u: "trace_UpdateCost flt d2 (step_TraceID step3)
                          (step_CostTokens step3) (step_CostAPI step3) = (e3, d3)"
          by (cases "trace_UpdateCost flt d2 (step_TraceID step3)
                          (step_CostTokens step3) (step_CostAPI step3)")
        note ue = trace_UpdateCost_effect [OF u]
        have calls3: "db_calls d3 = db_calls d @ pre @ [StepCreate step3,
            TraceUpdateCost (step_TraceID step3) (step_CostTokens step3) (step_CostAPI step3)]"
          using ue(1) calls2 by simp
        from R seq_given c None cost u have "st' = step3" "d' = d3"
          by (simp_all split: option.splits)
        with None cost ce ue(2) seq_given(1,2) calls3 s3 False show ?thesis
          by (auto simp: new_calls_append)
      qed
    qed
  qed
qed

lemma ex_RecordStep:
  "RecordStep no_fault ex_db ''u1'' 105 ex_step =
     (None, ex_step\<lparr>step_ID := ''u1'', step_CreatedAt := 105, step_UpdatedAt := 105\<rparr>,
      \<lparr>db_sessions = [], db_messages = [],
        db_traces = [ex_trace\<lparr>trace_CostTokens := 10\<rparr>],
        db_steps = [ex_step\<lparr>step_ID := ''u1'', step_CreatedAt := 105, step_UpdatedAt := 105\<rparr>],
        db_calls = [StepCreate (ex_step\<lparr>step_ID := ''u1'', step_CreatedAt := 105,
                                     step_UpdatedAt := 105\<rparr>),
                    TraceUpdateCost ''t1'' 10 0]\<rparr>)"
  by (simp add: RecordStep_def step_Create_def trace_UpdateCost_def faulty_def no_fault_def
        called_def ex_db_def ex_step_def ex_trace_def Let_def)

theorem RecordStep_contract_witness:
  "fst (RecordStep no_fault ex_db ''u1'' 105 ex_step) = None
   \<and> step_ID (fst (snd (RecordStep no_fault ex_db ''u1'' 105 ex_step))) = ''u1''
   \<and> step_CreatedAt (fst (snd (RecordStep no_fault ex_db ''u1'' 105 ex_step))) = 105
   \<and> filter is_UpdateCost
        (new_calls ex_db (snd (snd (RecordStep no_fault ex_db ''u1'' 105 ex_step))))
       = [TraceUpdateCost ''t1'' 10 0]"
  using RecordStep_contract [OF ex_RecordStep]
  unfolding ex_RecordStep fst_conv snd_conv
  by (simp add: ex_step_def ex_db_def new_calls_def)

section \<open>Activity tracker: when the monitor cancels\<close>

lemma monitor_step_static:
  "at_totalStart (mon_tracker (monitor_step m e)) = at_totalStart (mon_tracker m)"
  "at_config (mon_tracker (monitor_step m e)) = at_config (mon_tracker m)"
  by (cases e; simp add: UpdateActivity_def Stop_def)+

lemma run_monitor_static:
  "at_totalStart (mon_tracker (run_monitor m es)) = at_totalStart (mon_tracker m)
   \<and> at_config (mon_tracker (run_monitor m es)) = at_config (mon_tracker m)"
  by (induction es arbitrary: m) (simp_all add: monitor_step_static)

lemma monitor_step_fired_done:
  "mon_fired m = Some t \<Longrightarrow> at_done (mon_tracker m) \<Longrightarrow>
   mon_fired (monitor_step m e) = Some t \<and> at_done (mon_tracker (monitor_step m e))"
  by (cases e) (simp_all add: UpdateActivity_def Stop_def)

lemma run_monitor_append: "run_monitor m (xs @ ys) = run_monitor (run_monitor m xs) ys"
  by (induction xs arbitrary: m) simp_all

lemma fired_keeps:
  "mon_fired m = Some t \<Longrightarrow> at_done (mon_tracker m) \<Longrightarrow> mon_fired (run_monitor m es) = Some t"
  by (induction es arbitrary: m) (simp_all add: monitor_step_fired_done)

text \<open>The monitor fires only at a poll whose predicate holds.\<close>

lemma fired_at_poll:
  assumes "mon_fired (run_monitor m es) = Some t" and "mon_fired m = None"
  shows "\<exists>pre post. es = pre @ Tick t # post
           \<and> \<not> at_done (mon_tracker (run_monitor m pre))
           \<and> mon_fired (run_monitor m pre) = None
           \<and> shouldTimeout (mon_tracker (run_monitor m pre)) t"
  using assms
proof (induction es arbitrary: m)
  case Nil
  then show ?case by simp
next
  case (Cons e es)
  show ?case
  proof (cases "mon_fired (monitor_step m e)")
    case None
    with Cons.prems have "mon_fired (run_monitor (monitor_step m e) es) = Some t" by simp
    from Cons.IH [OF this None] obtain pre post where
      "es = pre @ Tick t # post"
      "\<not> at_done (mon_tracker (run_monitor (monitor_step m e) pre))"
      "mon_fired (run_monitor (monitor_step m e) pre) = None"
      "shouldTimeout (mon_tracker (run_monitor (monitor_step m e) pre)) t"
      by blast
    then have "e # es = (e # pre) @ Tick t # post
           \<and> \<not> at_done (mon_tracker (run_monitor m (e # pre)))
           \<and> mon_fired (run_monitor m (e # pre)) = None
           \<and> shouldTimeout (mon_tracker (run_monitor m (e # pre))) t"
      by simp
    then show ?thesis by blast
  next
    case (Some u)
    with Cons.prems(2) obtain now where e: "e = Tick now"
      and nd: "\<not> at_done (mon_tracker m)" and st: "shouldTimeout (mon_tracker m) now"
      and u: "u = now"
      by (cases e) (auto simp: UpdateActivity_def Stop_def split: if_splits)
    have "mon_fired (monitor_step m e) = Some now" "at_done (mon_tracker (monitor_step m e))"
      using e nd st by (simp_all add: Stop_def)
    then have "mon_fired (run_monitor (monitor_step m e) es) = Some now"
      by (rule fired_keeps)
    with Cons.prems(1) have "t = now" by simp
    with e nd st Cons.prems(2) have "e # es = [] @ Tick t # es
           \<and> \<not> at_done (mon_tracker (run_monitor m []))
           \<and> mon_fired (run_monitor m []) = None
           \<and> shouldTimeout (mon_tracker (run_monitor m [])) t"
      by simp
    then show ?thesis by blast
  qed
qed

lemma fed_prefix:
  "fed m (pre @ Tick t # post) \<Longrightarrow>
   at_done (mon_tracker (run_monitor m pre))
   \<or> t - at_lastActivity (mon_tracker (run_monitor m pre))
        \<le> ActivityTimeout (at_config (mon_tracker (run_monitor m pre)))"
proof (induction pre arbitrary: m)
  case Nil
  then show ?case by simp
next
  case (Cons e pre)
  then show ?case by (cases e) simp_all
qed

text \<open>
  C8: in every run of the monitor started on a fresh tracker, the monitor cancels the
  context only at a poll at which the context is not yet done and \<open>shouldTimeout\<close> holds
  (idle time above \<open>ActivityTimeout\<close> or total time above \<open>MaxTotalTimeout\<close>); and when at
  every poll of the run the time since the last activity is at most \<open>ActivityTimeout\<close>,
  the instant of that poll lies after \<open>start + MaxTotalTimeout\<close>.
\<close>

theorem supervisor_boundary:
  assumes "mon_fired (run_monitor (StartMonitoring (NewActivityTracker config start)) es) = Some t"
  shows "(\<exists>pre post. es = pre @ Tick t # post
           \<and> \<not> at_done (mon_tracker
                 (run_monitor (StartMonitoring (NewActivityTracker config start)) pre))
           \<and> shouldTimeout (mon_tracker
                 (run_monitor (StartMonitoring (NewActivityTracker config start)) pre)) t)
    \<and> (fed (StartMonitoring (NewActivityTracker config start)) es
         \<longrightarrow> t > start + MaxTotalTimeout config)"
proof -
  let ?m = "StartMonitoring (NewActivityTracker config start)"
  have none: "mon_fired ?m = None" by (simp add: StartMonitoring_def)
  from fired_at_poll [OF assms none] obtain pre post where
    es: "es = pre @ Tick t # post"
    and nd: "\<not> at_done (mon_tracker (run_monitor ?m pre))"
    and st: "shouldTimeout (mon_tracker (run_monitor ?m pre)) t"
    by blast
  have static: "at_totalStart (mon_tracker (run_monitor ?m pre)) = start"
    "at_config (mon_tracker (run_monitor ?m pre)) = config"
    using run_monitor_static [of ?m pre]
    by (simp_all add: StartMonitoring_def NewActivityTracker_def)
  have "t > start + MaxTotalTimeout config" if f: "fed ?m es"
  proof -
    from fed_prefix [of ?m pre t post] f es nd static
    have "t - at_lastActivity (mon_tracker (run_monitor ?m pre)) \<le> ActivityTimeout config"
      by simp
    with st static show ?thesis
      by (simp add: shouldTimeout_def Let_def split: if_splits)
  qed
  with es nd st show ?thesis by blast
qed


theorem supervisor_boundary_witness:
  "mon_fired (run_monitor (StartMonitoring (NewActivityTracker ex_timeouts 0)) ex_run) = Some 101
   \<and> fed (StartMonitoring (NewActivityTracker ex_timeouts 0)) ex_run
   \<and> (101::int) > 0 + MaxTotalTimeout ex_timeouts"
proof -
  have f: "mon_fired (run_monitor (StartMonitoring (NewActivityTracker ex_timeouts 0)) ex_run)
      = Some 101"
    by (simp add: StartMonitoring_def NewActivityTracker_def ex_timeouts_def ex_run_def
          shouldTimeout_def UpdateActivity_def Stop_def)
  have g: "fed (StartMonitoring (NewActivityTracker ex_timeouts 0)) ex_run"
    by (simp add: StartMonitoring_def NewActivityTracker_def ex_timeouts_def ex_run_def
          shouldTimeout_def UpdateActivity_def Stop_def)
  from supervisor_boundary [OF f] f g show ?thesis by simp
qed

section \<open>Cost analyzer: summary and hotspots\<close>

lemma foldl_add: "foldl (\<lambda>sum value. sum + value) (a::real) xs = a + sum_list xs"
  by (induction xs arbitrary: a) simp_all

lemma calc_Sum_eq: "calc_Sum xs = sum_list xs"
  by (simp add: calc_Sum_def foldl_add)

lemma calc_Avg_eq: "calc_Avg xs = sum_list xs / real (length xs)"
  by (simp add: calc_Avg_def foldl_add)

lemma Max_insert2:
  "finite S \<Longrightarrow> Max (insert (max a x) S) = Max (insert (a::real) (insert x S))"
  by (cases "S = {}") (simp_all add: max.assoc)

lemma Min_insert2:
  "finite S \<Longrightarrow> Min (insert (min a x) S) = Min (insert (a::real) (insert x S))"
  by (cases "S = {}") (simp_all add: min.assoc)

lemma foldl_max: "foldl (\<lambda>max value. if value > max then value else max) (a::real) xs
    = Max (insert a (set xs))"
proof (induction xs arbitrary: a)
  case Nil
  then show ?case by simp
next
  case (Cons x xs)
  have m: "(if a < x then x else a) = max a x" by (simp add: max_def)
  have "foldl (\<lambda>max value. if value > max then value else max) a (x # xs)
      = Max (insert (max a x) (set xs))"
    using Cons [of "max a x"] by (simp only: foldl.simps m)
  also have "\<dots> = Max (insert a (insert x (set xs)))"
    by (rule Max_insert2) simp
  finally show ?case by (simp only: list.set)
qed

lemma foldl_min: "foldl (\<lambda>min value. if value < min then value else min) (a::real) xs
    = Min (insert a (set xs))"
proof (induction xs arbitrary: a)
  case Nil
  then show ?case by simp
next
  case (Cons x xs)
  have m: "(if x < a then x else a) = min a x" by (simp add: min_def)
  have "foldl (\<lambda>min value. if value < min then value else min) a (x # xs)
      = Min (insert (min a x) (set xs))"
    using Cons [of "min a x"] by (simp only: foldl.simps m)
  also have "\<dots> = Min (insert a (insert x (set xs)))"
    by (rule Min_insert2) simp
  finally show ?case by (simp only: list.set)
qed

lemma calc_Max_eq: "xs \<noteq> [] \<Longrightarrow> calc_Max xs = Some (Max (set xs))"
proof (cases xs)
  case Nil
  then show "xs \<noteq> [] \<Longrightarrow> ?thesis" by simp
next
  case (Cons v vs)
  have "calc_Max (v # vs) = Some (Max (insert v (set (v # vs))))"
    unfolding calc_Max_def list.case foldl_max ..
  then show ?thesis by (simp only: Cons list.set insert_absorb2)
qed

lemma calc_Min_eq: "xs \<noteq> [] \<Longrightarrow> calc_Min xs = Some (Min (set xs))"
proof (cases xs)
  case Nil
  then show "xs \<noteq> [] \<Longrightarrow> ?thesis" by simp
next
  case (Cons v vs)
  have "calc_Min (v # vs) = Some (Min (insert v (set (v # vs))))"
    unfolding calc_Min_def list.case foldl_min ..
  then show ?thesis by (simp only: Cons list.set insert_absorb2)
qed

lemma wrap64_add_left: "wrap64 (wrap64 x + y) = wrap64 (x + y)"
proof -
  define K :: int where "K = 2 ^ 63"
  have w: "wrap64 z = (z + K) mod 2 ^ 64 - K" for z
    by (simp only: wrap64_def K_def)
  have "(x + K) mod 2 ^ 64 - K + y + K = (x + K) mod 2 ^ 64 + y"
    by linarith
  then have "(wrap64 x + y + K) mod 2 ^ 64 = ((x + K) mod 2 ^ 64 + y) mod 2 ^ 64"
    by (simp only: w)
  also have "\<dots> = (x + K + y) mod 2 ^ 64"
    by (rule mod_add_left_eq)
  also have "x + K + y = x + y + K"
    by linarith
  finally show ?thesis
    by (simp only: w)
qed

lemma wrap64_id: "- (2 ^ 63) \<le> x \<Longrightarrow> x < 2 ^ 63 \<Longrightarrow> wrap64 x = x"
  by (simp add: wrap64_def)

lemma foldl_tokens:
  "foldl (\<lambda>total trace. wrap64 (total + trace_CostTokens trace)) (wrap64 a) ts
     = wrap64 (a + sum_list (map trace_CostTokens ts))"
proof (induction ts arbitrary: a)
  case Nil
  then show ?case by simp
next
  case (Cons t ts)
  have "wrap64 (wrap64 a + trace_CostTokens t) = wrap64 (a + trace_CostTokens t)"
    by (rule wrap64_add_left)
  with Cons [of "a + trace_CostTokens t"] show ?case by (simp add: add.assoc)
qed

lemma calculateSummary_eq:
  assumes "traces \<noteq> []"
  shows "calculateSummary traces =
    (Return \<lparr>TotalCost = sum_list (map trace_CostAPI traces),
             AvgCost = sum_list (map trace_CostAPI traces) / real (length traces),
             MaxCost = Max (set (map trace_CostAPI traces)),
             MinCost = Min (set (map trace_CostAPI traces)),
             TotalTokens = wrap64 (sum_list (map trace_CostTokens traces)),
             TraceCount = int (length traces),
             CostPerToken = (if wrap64 (sum_list (map trace_CostTokens traces)) > 0
                then sum_list (map trace_CostAPI traces)
                       / real_of_int (wrap64 (sum_list (map trace_CostTokens traces)))
                else 0)\<rparr>,
     [CallSum (map trace_CostAPI traces), CallAvg (map trace_CostAPI traces),
      CallMax (map trace_CostAPI traces), CallMin (map trace_CostAPI traces)])"
proof -
  have ne: "map trace_CostAPI traces \<noteq> []" using assms by simp
  have w0: "wrap64 0 = 0" by (simp add: wrap64_def)
  have tok: "foldl (\<lambda>total trace. wrap64 (total + trace_CostTokens trace)) 0 traces
     = wrap64 (sum_list (map trace_CostTokens traces))"
    using foldl_tokens [of 0 traces] by (simp add: w0)
  show ?thesis
    unfolding calculateSummary_def Let_def tok calc_Max_eq [OF ne] calc_Min_eq [OF ne]
      calc_Sum_eq calc_Avg_eq
    by simp
qed

lemma calculateSummary_nil:
  "calculateSummary [] = (Panic, [CallSum [], CallAvg [], CallMax []])"
  by (simp add: calculateSummary_def calc_Max_def)


lemma analyzeTrends_snd: "snd (analyzeTrends L xs) = lib_sortSlice L lessStartedAt xs"
  by (simp add: analyzeTrends_def Let_def case_prod_beta)

lemma Analyze_unfiltered:
  assumes get: "trace_GetBySessionID flt d (in_SessionID input) = (Inr traces, d1)"
    and ne: "traces \<noteq> []"
    and nf: "in_Filters input = None"
  shows "fst (Analyze L flt d input) =
     Return (Inr \<lparr>res_SessionID = in_SessionID input,
        res_Summary = Some (summary_of traces),
        res_Breakdown = Some (fst (calculateBreakdown L flt d1 traces (in_GroupBy input))),
        res_Trends = Some (fst (analyzeTrends L traces)),
        res_Hotspots = IdentifyHotspots L (lib_sortSlice L lessStartedAt traces) 5,
        res_Suggestions = []\<rparr>)"
  unfolding Analyze_def get prod.case sum.case nf option.case Let_def
    calculateSummary_eq [OF ne] outcome.case summary_of_def [symmetric]
  using ne by (simp add: case_prod_beta analyzeTrends_snd)

lemma Analyze_filtered:
  assumes get: "trace_GetBySessionID flt d (in_SessionID input) = (Inr traces, d1)"
    and ne: "traces \<noteq> []"
    and f: "in_Filters input = Some criteria"
  shows "fst (Analyze L flt d input) = Panic"
  unfolding Analyze_def get prod.case sum.case f option.case Let_def FilterTraces_def
    calculateSummary_nil outcome.case
  using ne by simp

lemma Analyze_empty:
  assumes get: "trace_GetBySessionID flt d (in_SessionID input) = (Inr [], d1)"
  shows "Analyze L flt d input =
     (Return (Inr \<lparr>res_SessionID = in_SessionID input,
          res_Summary = Some \<lparr>TotalCost = 0, AvgCost = 0, MaxCost = 0, MinCost = 0,
                               TotalTokens = 0, TraceCount = 0, CostPerToken = 0\<rparr>,
          res_Breakdown = None, res_Trends = None, res_Hotspots = [],
          res_Suggestions = []\<rparr>), d1, [])"
  unfolding Analyze_def get prod.case sum.case by simp

lemma top_of_sorted:
  assumes "sorted_wrt (\<lambda>a b. \<not> lessCostDesc b a) ys" and "mset ys = mset xs"
  shows "mset xs = mset (take n ys) + mset (drop n ys)
     \<and> length (take n ys) = min n (length xs)
     \<and> sorted_wrt (\<lambda>a b. trace_CostAPI a \<ge> trace_CostAPI b) (take n ys)
     \<and> (\<forall>a \<in> set (take n ys). \<forall>b \<in> set (drop n ys). trace_CostAPI a \<ge> trace_CostAPI b)"
proof -
  have le: "(\<lambda>a b. \<not> lessCostDesc b a) = (\<lambda>a b. trace_CostAPI a \<ge> trace_CostAPI b)"
    by (simp add: lessCostDesc_def fun_eq_iff not_less)
  have s: "sorted_wrt (\<lambda>a b. trace_CostAPI a \<ge> trace_CostAPI b) (take n ys @ drop n ys)"
    using assms(1) unfolding le by simp
  have len: "length ys = length xs"
    using assms(2) by (rule mset_eq_length)
  have m: "mset xs = mset (take n ys) + mset (drop n ys)"
    using assms(2) by (metis append_take_drop_id mset_append)
  from s have "sorted_wrt (\<lambda>a b. trace_CostAPI a \<ge> trace_CostAPI b) (take n ys)"
    and "\<forall>a \<in> set (take n ys). \<forall>b \<in> set (drop n ys). trace_CostAPI a \<ge> trace_CostAPI b"
    unfolding sorted_wrt_append by blast+
  with m len show ?thesis by simp
qed


text \<open>
  C7: let \<open>sort.Slice\<close> return a permutation of its input that is ordered by the \<open>less\<close>
  function it is given, and let the session have the non-empty list \<open>traces\<close>. Without
  filters \<open>Analyze\<close> returns a result, and every result it returns has the summary
  \<open>totalCost = \<Sum> costAPI\<close>, \<open>avgCost = totalCost / traceCount\<close>, \<open>maxCost\<close> and \<open>minCost\<close> the
  greatest and least \<open>costAPI\<close>, \<open>totalTokens = \<Sum> costTokens\<close> (as a 64-bit sum: equal to
  the sum whenever that fits), \<open>traceCount\<close> the number of traces and
  \<open>costPerToken = totalCost / totalTokens\<close> when \<open>totalTokens > 0\<close>, else 0. Its hotspots are
  made from the \<open>min 5 n\<close> traces of highest \<open>costAPI\<close> (the list \<open>top\<close>: no trace left out
  costs more than one in it), in descending order of \<open>costAPI\<close>. The i-th hotspot carries
  the \<open>ID\<close>, the \<open>costAPI\<close> and the \<open>costTokens\<close> of the i-th of these traces, and its impact
  is high when that trace's \<open>costAPI\<close> is above 1.0, medium when it is above 0.1 and low
  otherwise.
\<close>

theorem Analyze_summary_hotspots:
  assumes perm: "\<And>lt xs. mset (lib_sortSlice L lt xs) = mset xs"
    and srt: "\<And>xs. sorted_wrt (\<lambda>a b. \<not> lessCostDesc b a) (lib_sortSlice L lessCostDesc xs)"
    and get: "trace_GetBySessionID flt d (in_SessionID input) = (Inr traces, d1)"
    and ne: "traces \<noteq> []"
  shows "(in_Filters input = None \<longrightarrow> (\<exists>r. fst (Analyze L flt d input) = Return (Inr r)))
   \<and> (\<forall>r. fst (Analyze L flt d input) = Return (Inr r) \<longrightarrow>
        (\<exists>s. res_Summary r = Some s
           \<and> TotalCost s = sum_list (map trace_CostAPI traces)
           \<and> AvgCost s = TotalCost s / real (length traces)
           \<and> MaxCost s = Max (set (map trace_CostAPI traces))
           \<and> MinCost s = Min (set (map trace_CostAPI traces))
           \<and> TotalTokens s = wrap64 (sum_list (map trace_CostTokens traces))
           \<and> (- (2 ^ 63) \<le> sum_list (map trace_CostTokens traces)
                \<and> sum_list (map trace_CostTokens traces) < 2 ^ 63
              \<longrightarrow> TotalTokens s = sum_list (map trace_CostTokens traces))
           \<and> TraceCount s = int (length traces)
           \<and> CostPerToken s = (if TotalTokens s > 0
                                then TotalCost s / real_of_int (TotalTokens s) else 0))
      \<and> (\<exists>top rest. mset traces = mset top + mset rest
           \<and> length top = min 5 (length traces)
           \<and> sorted_wrt (\<lambda>a b. trace_CostAPI a \<ge> trace_CostAPI b) top
           \<and> (\<forall>a \<in> set top. \<forall>b \<in> set rest. trace_CostAPI a \<ge> trace_CostAPI b)
           \<and> res_Hotspots r = map hotspot_of top
           \<and> map hs_TraceID (res_Hotspots r) = map trace_ID top
           \<and> map hs_Cost (res_Hotspots r) = map trace_CostAPI top
           \<and> map hs_Tokens (res_Hotspots r) = map trace_CostTokens top
           \<and> map hs_Impact (res_Hotspots r) =
               map (\<lambda>trace. if trace_CostAPI trace > 1.0 then ''high''
                             else if trace_CostAPI trace > 0.1 then ''medium'' else ''low'') top)
      \<and> (\<forall>h \<in> set (res_Hotspots r).
            hs_Impact h = (if hs_Cost h > 1.0 then ''high''
                           else if hs_Cost h > 0.1 then ''medium'' else ''low'')))"
proof (cases "in_Filters input")
  case (Some criteria)
  from Analyze_filtered [OF get ne Some] show ?thesis
    by (simp add: Some)
next
  case None
  let ?ys = "lib_sortSlice L lessCostDesc (lib_sortSlice L lessStartedAt traces)"
  let ?R = "\<lparr>res_SessionID = in_SessionID input,
        res_Summary = Some (summary_of traces),
        res_Breakdown = Some (fst (calculateBreakdown L flt d1 traces (in_GroupBy input))),
        res_Trends = Some (fst (analyzeTrends L traces)),
        res_Hotspots = IdentifyHotspots L (lib_sortSlice L lessStartedAt traces) 5,
        res_Suggestions = []\<rparr>"
  have A: "fst (Analyze L flt d input) = Return (Inr ?R)"
    by (rule Analyze_unfiltered [OF get ne None])
  have ms: "mset ?ys = mset traces"
    by (simp only: perm)
  note top = top_of_sorted [OF srt ms, of 5]
  have hs: "res_Hotspots ?R = map hotspot_of (take 5 ?ys)"
    by (simp add: IdentifyHotspots_def)
  have fields: "map hs_TraceID (res_Hotspots ?R) = map trace_ID (take 5 ?ys)"
    "map hs_Cost (res_Hotspots ?R) = map trace_CostAPI (take 5 ?ys)"
    "map hs_Tokens (res_Hotspots ?R) = map trace_CostTokens (take 5 ?ys)"
    "map hs_Impact (res_Hotspots ?R) =
               map (\<lambda>trace. if trace_CostAPI trace > 1.0 then ''high''
                             else if trace_CostAPI trace > 0.1 then ''medium'' else ''low'')
                 (take 5 ?ys)"
    by (simp_all add: IdentifyHotspots_def hotspot_of_def comp_def)
  have sum: "\<exists>s. res_Summary ?R = Some s
           \<and> TotalCost s = sum_list (map trace_CostAPI traces)
           \<and> AvgCost s = TotalCost s / real (length traces)
           \<and> MaxCost s = Max (set (map trace_CostAPI traces))
           \<and> MinCost s = Min (set (map trace_CostAPI traces))
           \<and> TotalTokens s = wrap64 (sum_list (map trace_CostTokens traces))
           \<and> (- (2 ^ 63) \<le> sum_list (map trace_CostTokens traces)
                \<and> sum_list (map trace_CostTokens traces) < 2 ^ 63
              \<longrightarrow> TotalTokens s = sum_list (map trace_CostTokens traces))
           \<and> TraceCount s = int (length traces)
           \<and> CostPerToken s = (if TotalTokens s > 0
                                then TotalCost s / real_of_int (TotalTokens s) else 0)"
    by (simp add: summary_of_def wrap64_id)
  have tops: "\<exists>top rest. mset traces = mset top + mset rest
           \<and> length top = min 5 (length traces)
           \<and> sorted_wrt (\<lambda>a b. trace_CostAPI a \<ge> trace_CostAPI b) top
           \<and> (\<forall>a \<in> set top. \<forall>b \<in> set rest. trace_CostAPI a \<ge> trace_CostAPI b)
           \<and> res_Hotspots ?R = map hotspot_of top
           \<and> map hs_TraceID (res_Hotspots ?R) = map trace_ID top
           \<and> map hs_Cost (res_Hotspots ?R) = map trace_CostAPI top
           \<and> map hs_Tokens (res_Hotspots ?R) = map trace_CostTokens top
           \<and> map hs_Impact (res_Hotspots ?R) =
               map (\<lambda>trace. if trace_CostAPI trace > 1.0 then ''high''
                             else if trace_CostAPI trace > 0.1 then ''medium'' else ''low'') top"
  proof (intro exI conjI)
    show "mset traces = mset (take 5 ?ys) + mset (drop 5 ?ys)" using top by blast
    show "length (take 5 ?ys) = min 5 (length traces)" using top by blast
    show "sorted_wrt (\<lambda>a b. trace_CostAPI a \<ge> trace_CostAPI b) (take 5 ?ys)"
      using top by blast
    show "\<forall>a \<in> set (take 5 ?ys). \<forall>b \<in> set (drop 5 ?ys). trace_CostAPI a \<ge> trace_CostAPI b"
      using top by blast
  qed (rule hs fields)+
  have imp: "\<forall>h \<in> set (res_Hotspots ?R).
            hs_Impact h = (if hs_Cost h > 1.0 then ''high''
                           else if hs_Cost h > 0.1 then ''medium'' else ''low'')"
    unfolding hs by (auto simp: hotspot_of_def)
  from sum tops imp show ?thesis
    unfolding A by (simp only: outcome.inject sum.inject simp_thms)
qed

lemma ex_insert_mset: "mset (ex_insert lt x ys) = add_mset x (mset ys)"
  by (induction ys) simp_all

lemma ex_sortSlice_mset: "mset (ex_sortSlice lt xs) = mset xs"
  by (induction xs) (simp_all add: ex_sortSlice_def ex_insert_mset)

lemma ex_insert_set: "set (ex_insert lt x ys) = insert x (set ys)"
  by (induction ys) auto

lemma ex_insert_sorted:
  "sorted_wrt (\<lambda>a b. \<not> lessCostDesc b a) ys \<Longrightarrow>
   sorted_wrt (\<lambda>a b. \<not> lessCostDesc b a) (ex_insert lessCostDesc x ys)"
  by (induction ys) (auto simp: ex_insert_set lessCostDesc_def)

lemma ex_sortSlice_sorted:
  "sorted_wrt (\<lambda>a b. \<not> lessCostDesc b a) (ex_sortSlice lessCostDesc xs)"
  by (induction xs) (simp_all add: ex_sortSlice_def ex_insert_sorted)

lemma ex_cost_get:
  "trace_GetBySessionID no_fault ex_cost_db ''s1'' =
     (Inr [ex_cost_trace ''c'' 300 300 (3/2), ex_cost_trace ''b'' 200 40 (1/5),
           ex_cost_trace ''a'' 100 10 (1/20)],
      called (TraceGetBySessionID ''s1'') ex_cost_db)"
  by (simp add: trace_GetBySessionID_def faulty_def no_fault_def ex_cost_db_def
        ex_cost_trace_def)

lemma descending_unique:
  fixes cs :: "real list"
  assumes "sorted_wrt (\<lambda>a b. a \<ge> b) cs" and "mset cs = mset ds"
  shows "cs = rev (sort ds)"
proof -
  have "sorted (rev cs)"
    using assms(1) by (simp add: sorted_wrt_rev)
  moreover have "mset (rev cs) = mset ds"
    using assms(2) by simp
  ultimately have "sort ds = rev cs"
    by (simp add: properties_for_sort)
  then show ?thesis by simp
qed

theorem Analyze_summary_hotspots_witness:
  "\<exists>r s. fst (Analyze ex_lib no_fault ex_cost_db (AnalyzeCost_input ''s1'' [] []))
            = Return (Inr r)
     \<and> res_Summary r = Some s
     \<and> TotalCost s = 7/4 \<and> AvgCost s = 7/12 \<and> MaxCost s = 3/2 \<and> MinCost s = 1/20
     \<and> TotalTokens s = 350 \<and> TraceCount s = 3 \<and> CostPerToken s = 1/200
     \<and> map hs_TraceID (res_Hotspots r) = [''c'', ''b'', ''a'']
     \<and> map hs_Cost (res_Hotspots r) = [3/2, 1/5, 1/20]
     \<and> map hs_Tokens (res_Hotspots r) = [300, 40, 10]
     \<and> map hs_Impact (res_Hotspots r) = [''high'', ''medium'', ''low'']"
proof -
  let ?ts = "[ex_cost_trace ''c'' 300 300 (3/2), ex_cost_trace ''b'' 200 40 (1/5),
           ex_cost_trace ''a'' 100 10 (1/20)]"
  let ?g = "\<lambda>c::real. if c = 3/2 then ex_cost_trace ''c'' 300 300 (3/2)
                     else if c = 1/5 then ex_cost_trace ''b'' 200 40 (1/5)
                     else ex_cost_trace ''a'' 100 10 (1/20)"
  have perm: "\<And>lt xs. mset (lib_sortSlice ex_lib lt xs) = mset xs"
    by (simp add: ex_lib_def ex_sortSlice_mset)
  have srt: "\<And>xs. sorted_wrt (\<lambda>a b. \<not> lessCostDesc b a) (lib_sortSlice ex_lib lessCostDesc xs)"
    by (simp add: ex_lib_def ex_sortSlice_sorted)
  have get: "trace_GetBySessionID no_fault ex_cost_db
       (in_SessionID (AnalyzeCost_input ''s1'' [] [])) =
     (Inr ?ts, called (TraceGetBySessionID ''s1'') ex_cost_db)"
    by (simp add: AnalyzeCost_input_def ex_cost_get)
  have ne: "?ts \<noteq> []" by simp
  have nf: "in_Filters (AnalyzeCost_input ''s1'' [] []) = None"
    by (simp add: AnalyzeCost_input_def)
  note T = Analyze_summary_hotspots [of ex_lib, OF perm srt get ne]
  from T nf obtain r where
    r: "fst (Analyze ex_lib no_fault ex_cost_db (AnalyzeCost_input ''s1'' [] [])) = Return (Inr r)"
    by blast
  from T r obtain s where s: "res_Summary r = Some s"
    "TotalCost s = sum_list (map trace_CostAPI ?ts)"
    "AvgCost s = TotalCost s / real (length ?ts)"
    "MaxCost s = Max (set (map trace_CostAPI ?ts))"
    "MinCost s = Min (set (map trace_CostAPI ?ts))"
    "TotalTokens s = wrap64 (sum_list (map trace_CostTokens ?ts))"
    "TraceCount s = int (length ?ts)"
    "CostPerToken s = (if TotalTokens s > 0
                                then TotalCost s / real_of_int (TotalTokens s) else 0)"
    by blast
  from T r obtain top rest where top: "mset ?ts = mset top + mset rest"
    "length top = min 5 (length ?ts)"
    "sorted_wrt (\<lambda>a b. trace_CostAPI a \<ge> trace_CostAPI b) top"
    and hs: "map hs_TraceID (res_Hotspots r) = map trace_ID top"
    "map hs_Cost (res_Hotspots r) = map trace_CostAPI top"
    "map hs_Tokens (res_Hotspots r) = map trace_CostTokens top"
    "map hs_Impact (res_Hotspots r) =
               map (\<lambda>trace. if trace_CostAPI trace > 1.0 then ''high''
                             else if trace_CostAPI trace > 0.1 then ''medium'' else ''low'') top"
    by blast
  have "size (mset ?ts) = size (mset top) + size (mset rest)"
    unfolding top(1) by simp
  with top(2) have "rest = []" by simp
  with top(1) have m: "mset top = mset ?ts" by simp
  have "sorted_wrt (\<lambda>a b. a \<ge> b) (map trace_CostAPI top)"
    using top(3) by (simp add: sorted_wrt_map)
  moreover have "mset (map trace_CostAPI top) = mset (map trace_CostAPI ?ts)"
    unfolding mset_map m ..
  ultimately have "map trace_CostAPI top = rev (sort (map trace_CostAPI ?ts))"
    by (rule descending_unique)
  then have costs: "map trace_CostAPI top = [3/2, 1/5, 1/20]"
    by (simp add: ex_cost_trace_def)
  have "set top = set ?ts"
    using m by (rule mset_eq_setD)
  then have "\<forall>t \<in> set top. ?g (trace_CostAPI t) = t"
    by (simp add: ex_cost_trace_def)
  then have "map ?g (map trace_CostAPI top) = top"
    unfolding map_map comp_def by (simp add: map_idI)
  then have t: "top = ?ts"
    unfolding costs by simp
  have hvals: "map hs_TraceID (res_Hotspots r) = [''c'', ''b'', ''a'']"
    "map hs_Cost (res_Hotspots r) = [3/2, 1/5, 1/20]"
    "map hs_Tokens (res_Hotspots r) = [300, 40, 10]"
    "map hs_Impact (res_Hotspots r) = [''high'', ''medium'', ''low'']"
    unfolding hs t by (simp_all add: ex_cost_trace_def)
  have w: "wrap64 350 = 350" by (simp add: wrap64_def)
  have vals: "TotalCost s = 7/4" "AvgCost s = 7/12" "MaxCost s = 3/2" "MinCost s = 1/20"
     "TotalTokens s = 350" "TraceCount s = 3"
    using s by (simp_all add: ex_cost_trace_def w)
  then have c: "CostPerToken s = 1/200"
    using s(8) by simp
  show ?thesis
    by (rule exI [of _ r], rule exI [of _ s]) (simp only: r s(1) vals c hvals simp_thms)
qed

section \<open>Cost analysis of a session without traces; no panic on the HTTP path\<close>

lemma Analyze_unfiltered_calls:
  assumes get: "trace_GetBySessionID flt d (in_SessionID input) = (Inr traces, d1)"
    and ne: "traces \<noteq> []"
    and nf: "in_Filters input = None"
  shows "snd (snd (Analyze L flt d input)) =
     [CallSum (map trace_CostAPI traces), CallAvg (map trace_CostAPI traces),
      CallMax (map trace_CostAPI traces), CallMin (map trace_CostAPI traces)]"
  unfolding Analyze_def get prod.case sum.case nf option.case Let_def
    calculateSummary_eq [OF ne] outcome.case
  using ne by (simp add: case_prod_beta)

lemma Analyze_get_failed:
  assumes get: "trace_GetBySessionID flt d (in_SessionID input) = (Inl err, d1)"
  shows "Analyze L flt d input = (Return (Inl (Wrapf ''failed to get traces: '' err)), d1, [])"
  unfolding Analyze_def get prod.case sum.case ..

lemma AnalyzeCost_unfold:
  "sid \<noteq> [] \<Longrightarrow>
   AnalyzeCost L flt d sid st en =
     (case Analyze L flt d (AnalyzeCost_input sid st en) of
             (Panic, d', calls) \<Rightarrow> (AnalysisPanic, d', calls)
           | (Return (Inl err), d', calls) \<Rightarrow>
               (AnalysisError 500 ''COST_ANALYSIS_FAILED'', d', calls)
           | (Return (Inr result), d', calls) \<Rightarrow>
               (case res_Summary result of
                  None \<Rightarrow> (AnalysisPanic, d', calls)
                | Some summary \<Rightarrow> (AnalysisOK result, d', calls)))"
  by (simp add: AnalyzeCost_def)

lemma AnalyzeCost_safe:
  "fst (AnalyzeCost L flt d sid st en) \<noteq> AnalysisPanic
   \<and> extremum_calls_nonempty (snd (snd (AnalyzeCost L flt d sid st en)))"
proof (cases "sid = []")
  case True
  then show ?thesis by (simp add: AnalyzeCost_def extremum_calls_nonempty_def)
next
  case False
  let ?input = "AnalyzeCost_input sid st en"
  obtain g d1 where get: "trace_GetBySessionID flt d (in_SessionID ?input) = (g, d1)"
    by (cases "trace_GetBySessionID flt d (in_SessionID ?input)")
  have nf: "in_Filters ?input = None" by (simp add: AnalyzeCost_input_def)
  show ?thesis
  proof (cases g)
    case (Inl err)
    with get have "Analyze L flt d ?input
        = (Return (Inl (Wrapf ''failed to get traces: '' err)), d1, [])"
      by (simp add: Analyze_get_failed)
    then show ?thesis
      by (simp add: AnalyzeCost_unfold [OF False] extremum_calls_nonempty_def)
  next
    case (Inr traces)
    show ?thesis
    proof (cases "traces = []")
      case True
      with get Inr have "Analyze L flt d ?input = (Return (Inr (zero_result (in_SessionID ?input))), d1, [])"
        by (simp add: Analyze_empty zero_result_def)
      then show ?thesis
        by (simp add: AnalyzeCost_unfold [OF False] extremum_calls_nonempty_def zero_result_def)
    next
      case ne: False
      from get Inr have get': "trace_GetBySessionID flt d (in_SessionID ?input) = (Inr traces, d1)"
        by simp
      obtain o1 d2 calls where A: "Analyze L flt d ?input = (o1, d2, calls)"
        by (cases "Analyze L flt d ?input")
      from Analyze_unfiltered [OF get' ne nf, of L] A obtain r where
        o1: "o1 = Return (Inr r)" and rs: "res_Summary r = Some (summary_of traces)"
        by simp
      from Analyze_unfiltered_calls [OF get' ne nf, of L] A ne
      have "extremum_calls_nonempty calls"
        by (simp add: extremum_calls_nonempty_def)
      with A o1 rs show ?thesis
        by (simp add: AnalyzeCost_unfold [OF False])
    qed
  qed
qed

text \<open>
  C10: when the session has no traces, \<open>Analyze\<close> returns the result with the all-zero
  summary and no error, and the metrics calculator is not called. The input that the
  handler \<open>AnalyzeCost\<close> builds has no filters; the handler never panics, and in its runs
  \<open>Max\<close> and \<open>Min\<close> are never called on an empty list.
\<close>

theorem cost_analysis_empty_session:
  "(trace_GetBySessionID flt d (in_SessionID input) = (Inr [], d1) \<longrightarrow>
      Analyze L flt d input = (Return (Inr (zero_result (in_SessionID input))), d1, []))
   \<and> in_Filters (AnalyzeCost_input sid st en) = None
   \<and> fst (AnalyzeCost L flt d sid st en) \<noteq> AnalysisPanic
   \<and> extremum_calls_nonempty (snd (snd (AnalyzeCost L flt d sid st en)))"
  using AnalyzeCost_safe [of L flt d sid st en]
  by (simp add: Analyze_empty zero_result_def AnalyzeCost_input_def)

theorem cost_analysis_empty_session_witness:
  "Analyze ex_lib no_fault ex_cost_db (AnalyzeCost_input ''s0'' [] [])
     = (Return (Inr (zero_result ''s0'')), called (TraceGetBySessionID ''s0'') ex_cost_db, [])
   \<and> fst (AnalyzeCost ex_lib no_fault ex_cost_db ''s1'' [] []) \<noteq> AnalysisPanic"
proof -
  have get: "trace_GetBySessionID no_fault ex_cost_db (in_SessionID (AnalyzeCost_input ''s0'' [] []))
      = (Inr [], called (TraceGetBySessionID ''s0'') ex_cost_db)"
    by (simp add: trace_GetBySessionID_def faulty_def no_fault_def ex_cost_db_def
        ex_cost_trace_def AnalyzeCost_input_def)
  from cost_analysis_empty_session [of no_fault ex_cost_db "AnalyzeCost_input ''s0'' [] []"
      "called (TraceGetBySessionID ''s0'') ex_cost_db" ex_lib "''s1''" "[]" "[]"] get
  show ?thesis
    by (simp add: AnalyzeCost_input_def)
qed

text \<open>The guard matters: with filters present the stub \<open>FilterTraces\<close> empties the list
  and \<open>Max\<close> panics on it.\<close>

lemma Analyze_with_filters_panics:
  "fst (Analyze ex_lib no_fault ex_cost_db
      ((AnalyzeCost_input ''s1'' [] [])\<lparr>in_Filters :=
          Some \<lparr>fc_MinCost = 0, fc_MaxCost = 1, fc_Status = TraceStatusCompleted,
                fc_ModelNames = [], fc_StepTypes = []\<rparr>\<rparr>)) = Panic"
proof -
  let ?input = "(AnalyzeCost_input ''s1'' [] [])\<lparr>in_Filters :=
          Some \<lparr>fc_MinCost = 0, fc_MaxCost = 1, fc_Status = TraceStatusCompleted,
                fc_ModelNames = [], fc_StepTypes = []\<rparr>\<rparr>"
  have get: "trace_GetBySessionID no_fault ex_cost_db (in_SessionID ?input) =
     (Inr [ex_cost_trace ''c'' 300 300 (3/2), ex_cost_trace ''b'' 200 40 (1/5),
           ex_cost_trace ''a'' 100 10 (1/20)],
      called (TraceGetBySessionID ''s1'') ex_cost_db)"
    by (simp add: AnalyzeCost_input_def ex_cost_get)
  show ?thesis
    by (rule Analyze_filtered [OF get]) simp_all
qed

section \<open>Handlers: what each store operation does to the observed rows\<close>

lemma faulty_no_fault [simp]: "faulty no_fault d = False"
  by (simp add: faulty_def no_fault_def)

lemma record_views [simp]:
  "statuses \<lparr>db_sessions = ss, db_messages = ms, db_traces = ts, db_steps = sts, db_calls = cs\<rparr>
     = map (\<lambda>tr. (trace_ID tr, trace_Status tr)) ts"
  "step_rows \<lparr>db_sessions = ss, db_messages = ms, db_traces = ts, db_steps = sts, db_calls = cs\<rparr>
     = map (\<lambda>st. (step_ID st, step_Sequence st, step_StepType st)) sts"
  "budgets \<lparr>db_sessions = ss, db_messages = ms, db_traces = ts, db_steps = sts, db_calls = cs\<rparr> sid
     = map sess_Budget (filter (\<lambda>se. sess_ID se = sid) ss)"
  by (simp_all add: statuses_def step_rows_def budgets_def)

lemma called_views [simp]:
  "statuses (called c d) = statuses d"
  "step_rows (called c d) = step_rows d"
  "budgets (called c d) sid = budgets d sid"
  by (simp_all add: statuses_def step_rows_def budgets_def called_def)

lemma step_Create_views:
  "statuses (snd (step_Create flt d st)) = statuses d"
  "budgets (snd (step_Create flt d st)) sid = budgets d sid"
  "step_rows (snd (step_Create flt d st)) =
     (if \<not> faulty flt d \<and> step_ID st \<notin> fst ` set (step_rows d)
      then step_rows d @ [(step_ID st, step_Sequence st, step_StepType st)]
      else step_rows d)"
  by (auto simp: step_Create_def statuses_def budgets_def step_rows_def image_iff)

lemma RecordSnapshot_views:
  "statuses (snd (RecordSnapshot flt d uuid now marshal traceID snapshot)) = statuses d"
  "budgets (snd (RecordSnapshot flt d uuid now marshal traceID snapshot)) sid = budgets d sid"
  by (simp_all add: RecordSnapshot_def step_Create_views split: option.splits)

lemma RecordSnapshot_rows:
  "step_rows (snd (RecordSnapshot flt d uuid now marshal traceID (Some snap))) =
     (if traceID \<noteq> [] \<and> marshal (snap\<lparr>snap_Timestamp := now\<rparr>) \<noteq> None \<and> \<not> faulty flt d
         \<and> uuid \<notin> fst ` set (step_rows d)
      then step_rows d @ [(uuid, 0, ''snapshot'')]
      else step_rows d)"
  by (simp add: RecordSnapshot_def step_Create_views split: option.splits)

lemma trace_UpdateCost_views:
  "statuses (snd (trace_UpdateCost flt d tid n c)) = statuses d"
  "budgets (snd (trace_UpdateCost flt d tid n c)) sid = budgets d sid"
  "step_rows (snd (trace_UpdateCost flt d tid n c)) = step_rows d"
  by (auto simp: trace_UpdateCost_def statuses_def budgets_def step_rows_def)

lemma RecordStep_given_sequence:
  assumes "step_TraceID st \<noteq> []" and "step_Sequence st \<noteq> 0"
  shows "snd (snd (RecordStep flt d uuid now st)) =
     (case step_Create flt d (stamped uuid now st) of
        (Some err, d2) \<Rightarrow> d2
      | (None, d2) \<Rightarrow>
          if step_CostTokens st > 0 \<or> step_CostAPI st > 0
          then snd (trace_UpdateCost flt d2 (step_TraceID st) (step_CostTokens st)
                      (step_CostAPI st))
          else d2)"
  using assms
  by (simp add: RecordStep_stamped split: prod.splits option.splits)

lemma RecordStep_views:
  assumes "step_TraceID st \<noteq> []" and "step_Sequence st \<noteq> 0"
  shows "statuses (snd (snd (RecordStep flt d uuid now st))) = statuses d"
    and "budgets (snd (snd (RecordStep flt d uuid now st))) sid = budgets d sid"
    and "step_rows (snd (snd (RecordStep flt d uuid now st))) =
     (if \<not> faulty flt d \<and> (if step_ID st = [] then uuid else step_ID st) \<notin> fst ` set (step_rows d)
      then step_rows d @ [(if step_ID st = [] then uuid else step_ID st, step_Sequence st,
                           step_StepType st)]
      else step_rows d)"
proof -
  obtain e d2 where c: "step_Create flt d (stamped uuid now st) = (e, d2)"
    by (cases "step_Create flt d (stamped uuid now st)")
  have d2: "d2 = snd (step_Create flt d (stamped uuid now st))"
    by (simp add: c)
  have v: "statuses d2 = statuses d" "budgets d2 sid = budgets d sid"
    "step_rows d2 = (if \<not> faulty flt d \<and> step_ID (stamped uuid now st) \<notin> fst ` set (step_rows d)
      then step_rows d @ [(step_ID (stamped uuid now st), step_Sequence (stamped uuid now st),
                           step_StepType (stamped uuid now st))]
      else step_rows d)"
    unfolding d2 by (rule step_Create_views)+
  have ty: "step_StepType (stamped uuid now st) = step_StepType st"
    by (simp add: stamped_def)
  show "statuses (snd (snd (RecordStep flt d uuid now st))) = statuses d"
    unfolding RecordStep_given_sequence [OF assms] c
    by (cases e) (simp_all add: v trace_UpdateCost_views)
  show "budgets (snd (snd (RecordStep flt d uuid now st))) sid = budgets d sid"
    unfolding RecordStep_given_sequence [OF assms] c
    by (cases e) (simp_all add: v trace_UpdateCost_views)
  show "step_rows (snd (snd (RecordStep flt d uuid now st))) =
     (if \<not> faulty flt d \<and> (if step_ID st = [] then uuid else step_ID st) \<notin> fst ` set (step_rows d)
      then step_rows d @ [(if step_ID st = [] then uuid else step_ID st, step_Sequence st,
                           step_StepType st)]
      else step_rows d)"
    unfolding RecordStep_given_sequence [OF assms] c
    using v(3) by (cases e) (simp_all add: trace_UpdateCost_views ty)
qed

lemma EndTrace_views:
  "budgets (snd (EndTrace flt d now traceID status)) sid = budgets d sid"
  "step_rows (snd (EndTrace flt d now traceID status)) = step_rows d"
  "statuses (snd (EndTrace flt d now traceID status)) =
     (if faulty flt d then statuses d
      else map (\<lambda>(i, s). if i = traceID then (i, status) else (i, s)) (statuses d))"
  by (auto simp: EndTrace_def trace_UpdateStatus_def statuses_def budgets_def step_rows_def)

lemma SaveMessage_views:
  "statuses (snd (SaveMessage flt d m)) = statuses d"
  "budgets (snd (SaveMessage flt d m)) sid = budgets d sid"
  "step_rows (snd (SaveMessage flt d m)) = step_rows d"
  by (auto simp: SaveMessage_def message_Create_def statuses_def budgets_def step_rows_def)

lemma budgets_after_update:
  "map sess_Budget
     (filter (\<lambda>se. sess_ID se = sid')
        (map (\<lambda>se. if sess_ID se = sid
                   then se\<lparr>sess_Budget := (sess_Budget se)
                          \<lparr>budget_UsedTokens := budget_UsedTokens (sess_Budget se) + tokens,
                           budget_UsedCost := budget_UsedCost (sess_Budget se) + cost\<rparr>\<rparr>
                   else se) xs))
   = (if sid' = sid
      then map (add_used tokens cost) (map sess_Budget (filter (\<lambda>se. sess_ID se = sid) xs))
      else map sess_Budget (filter (\<lambda>se. sess_ID se = sid') xs))"
  by (induction xs) (auto simp: add_used_def)

lemma UpdateBudget_views:
  "statuses (snd (UpdateBudget flt d sid tokens cost)) = statuses d"
  "step_rows (snd (UpdateBudget flt d sid tokens cost)) = step_rows d"
  "budgets (snd (UpdateBudget flt d sid tokens cost)) sid' =
     (if faulty flt d \<or> sid' \<noteq> sid then budgets d sid'
      else map (add_used tokens cost) (budgets d sid))"
proof -
  show "statuses (snd (UpdateBudget flt d sid tokens cost)) = statuses d"
    "step_rows (snd (UpdateBudget flt d sid tokens cost)) = step_rows d"
    by (simp_all add: UpdateBudget_def session_UpdateBudget_def statuses_def step_rows_def
          called_def)
  show "budgets (snd (UpdateBudget flt d sid tokens cost)) sid' =
     (if faulty flt d \<or> sid' \<noteq> sid then budgets d sid'
      else map (add_used tokens cost) (budgets d sid))"
    unfolding UpdateBudget_def session_UpdateBudget_def budgets_def
    by (cases "faulty flt d") (simp_all add: called_def budgets_after_update)
qed

lemma save_assistant_and_budget_views:
  "statuses (save_assistant_and_budget env d sid role content tokens cost) = statuses d"
  "step_rows (save_assistant_and_budget env d sid role content tokens cost) = step_rows d"
  "budgets (save_assistant_and_budget env d sid role content tokens cost) sid' =
     (if faulty (env_flt env)
           (snd (SaveMessage (env_flt env) d
              \<lparr>msg_ID = env_uuid env PAssistantMsg, msg_SessionID = sid,
                          msg_Role = role, msg_Content = content, msg_Tokens = tokens,
                          msg_CreatedAt = env_clock env PAssistantMsg\<rparr>)) \<or> sid' \<noteq> sid
      then budgets d sid'
      else map (add_used tokens cost) (budgets d sid))"
  by (simp_all add: save_assistant_and_budget_def Let_def UpdateBudget_views SaveMessage_views)

lemmas turn_defs =
  ChatStream_def ChatStream_run_def ChatStream_finish_def ChatStream_callback_def
  stream_error_message_def emit_def stream_step_def start_trace_def pre_llm_snapshot_def
  post_llm_snapshot_def build_llmConfig_def ValidateConfig_def
  ExecuteChatStream_def ExecuteAgentStream_def getConnection_def to_StreamChunk_def
  StartTrace_def SessionService_Get_def trace_Create_def session_Get_def
  usage_get_def usage_of_pb_def
  Chat_def Chat_execute_def Chat_record_def ExecuteChat_def ExecuteAgent_def
  observe_stream_def observe_unary_def is_success_def status_of_def

lemmas turn_views =
  RecordSnapshot_views RecordSnapshot_rows RecordStep_views EndTrace_views
  SaveMessage_views save_assistant_and_budget_views

lemmas ex_turn_defs =
  ex_env_def ex_env_cancelled_def ex_turn_db_def ex_session_def ex_request_def
  ex_upstream_def ex_stream_ok_def ex_stream_broken_def ex_stream_error_chunk_def
  ex_stream_cancelled_def ex_unary_ok_def ex_unary_response_def ex_pb_def ex_delta_def
  ex_final_def ex_uuid_def ex_marshal_def no_fault_def add_used_def

lemma broken_stream_turn:
  "observe_stream (ChatStream ex_service (ex_upstream ex_stream_broken) ex_env ex_turn_db
      ex_request)
    = (RespStream,
       [EvContentDelta ''He'',
        EvError (FromError (Wrapf ''stream error: ''
                   (GrpcStatus OtherCode ''connection reset'')))],
       Some TraceStatusRunning,
       [\<lparr>budget_TotalTokens = 5, budget_UsedTokens = 0, budget_TotalCost = 0,
         budget_UsedCost = 0\<rparr>],
       [(''snap-pre'', 0, ''snapshot'')])"
  by (simp add: turn_defs turn_views ex_turn_defs Let_def)

lemma error_chunk_turn:
  "observe_stream (ChatStream ex_service (ex_upstream ex_stream_error_chunk) ex_env ex_turn_db
      ex_request)
    = (RespStream,
       [EvContentDelta ''He'', EvError (FromUpstream ''model overloaded''), EvDone],
       Some TraceStatusCompleted,
       [\<lparr>budget_TotalTokens = 5, budget_UsedTokens = 0, budget_TotalCost = 0,
         budget_UsedCost = 0\<rparr>],
       [(''snap-pre'', 0, ''snapshot''), (''snap-post'', 0, ''snapshot'')])"
  by (simp add: turn_defs turn_views ex_turn_defs Let_def)

lemma cancelled_turn:
  "observe_stream (ChatStream ex_service (ex_upstream ex_stream_cancelled) ex_env_cancelled
      ex_turn_db ex_request)
    = (RespStream,
       [EvContentDelta ''He'', EvDone],
       Some TraceStatusCompleted,
       [\<lparr>budget_TotalTokens = 5, budget_UsedTokens = 0, budget_TotalCost = 0,
         budget_UsedCost = 0\<rparr>],
       [(''snap-pre'', 0, ''snapshot''), (''snap-post'', 0, ''snapshot'')])"
  by (simp add: turn_defs turn_views ex_turn_defs Let_def)




section \<open>Streaming turns that end abnormally\<close>

text \<open>
  C1: what \<open>ChatStream\<close> does on the example session (a valid request, a store that never
  fails) when the upstream consumption ends abnormally after one content delta, observed
  as the response, the events sent, the status of the trace, the budget and the stored
  steps.
  \<^item> \<open>Recv\<close> fails with a status error other than \<open>Canceled\<close>: the client sees the delta and
    an \<open>error\<close> event and no \<open>done\<close>, but the handler returns without calling \<open>EndTrace\<close>, so
    the trace stays \<open>running\<close> (the unary handler closes it as \<open>failed\<close> on its error path).
  \<^item> The upstream delivers an \<open>error\<close> chunk: the callback forwards it as an \<open>error\<close> event,
    the receive loop returns nil, and the handler goes on as after a success: the
    post_llm snapshot, \<open>EndTrace(completed)\<close> and a \<open>done\<close> event.
  \<^item> The supervisor cancels the context (\<open>Recv\<close> fails with code \<open>Canceled\<close>): the receive
    loop returns nil, so the handler's branch for \<open>context.Canceled\<close> with the timeout
    messages is not reached; no \<open>error\<close> event is sent, the trace is closed as \<open>completed\<close>
    and \<open>done\<close> is sent.
\<close>

theorem ChatStream_abnormal_end:
  "observe_stream (ChatStream ex_service (ex_upstream ex_stream_broken) ex_env ex_turn_db
      ex_request)
    = (RespStream,
       [EvContentDelta ''He'',
        EvError (FromError (Wrapf ''stream error: ''
                   (GrpcStatus OtherCode ''connection reset'')))],
       Some TraceStatusRunning,
       [\<lparr>budget_TotalTokens = 5, budget_UsedTokens = 0, budget_TotalCost = 0,
         budget_UsedCost = 0\<rparr>],
       [(''snap-pre'', 0, ''snapshot'')])
   \<and> observe_stream (ChatStream ex_service (ex_upstream ex_stream_error_chunk) ex_env
        ex_turn_db ex_request)
    = (RespStream,
       [EvContentDelta ''He'', EvError (FromUpstream ''model overloaded''), EvDone],
       Some TraceStatusCompleted,
       [\<lparr>budget_TotalTokens = 5, budget_UsedTokens = 0, budget_TotalCost = 0,
         budget_UsedCost = 0\<rparr>],
       [(''snap-pre'', 0, ''snapshot''), (''snap-post'', 0, ''snapshot'')])
   \<and> observe_stream (ChatStream ex_service (ex_upstream ex_stream_cancelled) ex_env_cancelled
        ex_turn_db ex_request)
    = (RespStream,
       [EvContentDelta ''He'', EvDone],
       Some TraceStatusCompleted,
       [\<lparr>budget_TotalTokens = 5, budget_UsedTokens = 0, budget_TotalCost = 0,
         budget_UsedCost = 0\<rparr>],
       [(''snap-pre'', 0, ''snapshot''), (''snap-post'', 0, ''snapshot'')])"
  by (simp only: broken_stream_turn error_chunk_turn cancelled_turn simp_thms)

section \<open>Sequence numbers of the recorded steps\<close>

text \<open>
  C2: the sequence numbers the tracer stores. \<open>RecordSnapshot\<close> inserts its step without
  a sequence number (the zero value) and never calls \<open>getNextSequence\<close>; \<open>RecordStep\<close>
  numbers a step only when it arrives with sequence 0, and both handlers pass the
  literal 1. On a trace without steps, the three recording calls of a turn (pre_llm
  snapshot, the LLM step with \<open>Sequence: 1\<close>, post_llm snapshot) store the sequence numbers
  0, 1, 0; with a step that leaves the numbering to \<open>RecordStep\<close> they store 0, 2, 0. In
  both runs three steps are recorded and the stored numbers are not \<open>{1, 2, 3}\<close>: 0 occurs
  twice, and the post_llm snapshot, recorded last, has the lowest number.
\<close>

theorem recorded_sequences:
  "step_rows
     (snd (RecordSnapshot no_fault
        (snd (snd (RecordStep no_fault
           (snd (RecordSnapshot no_fault ex_db ''snap-pre'' 110 ex_marshal ''t1''
                   (Some (ex_snapshot ''pre_llm''))))
           ''step-1'' 140 ex_step)))
        ''snap-post'' 180 ex_marshal ''t1'' (Some (ex_snapshot ''post_llm''))))
     = [(''snap-pre'', 0, ''snapshot''), (''step-1'', 1, ''llm_call''),
        (''snap-post'', 0, ''snapshot'')]
   \<and> step_rows
     (snd (RecordSnapshot no_fault
        (snd (snd (RecordStep no_fault
           (snd (RecordSnapshot no_fault ex_db ''snap-pre'' 110 ex_marshal ''t1''
                   (Some (ex_snapshot ''pre_llm''))))
           ''step-1'' 140 (ex_step\<lparr>step_Sequence := 0\<rparr>))))
        ''snap-post'' 180 ex_marshal ''t1'' (Some (ex_snapshot ''post_llm''))))
     = [(''snap-pre'', 0, ''snapshot''), (''step-1'', 2, ''llm_call''),
        (''snap-post'', 0, ''snapshot'')]"
  by (simp add: RecordSnapshot_def RecordStep_def step_Create_def getNextSequence_def
        step_GetByTraceID_def trace_UpdateCost_def faulty_def no_fault_def called_def
        ex_db_def ex_trace_def ex_step_def ex_snapshot_def ex_marshal_def step_rows_def Let_def)

section \<open>The budget of a session across a turn\<close>





section \<open>A request that names neither provider nor model\<close>

lemma build_llmConfig_omitted:
  "cr_Provider req = [] \<Longrightarrow> cr_Model req = [] \<Longrightarrow> build_llmConfig req = Inr None"
  by (simp add: build_llmConfig_def)

lemma pre_llm_snapshot_nil_config:
  "pre_llm_snapshot env d (Some tr) messages None sessionID = Panic"
  by (simp add: pre_llm_snapshot_def)

text \<open>
  C5: a request with a valid session identifier and a body that binds, naming neither
  provider nor model, leaves the pointer \<open>llmConfig\<close> nil. Whenever the trace was started
  and the session exists, both handlers then panic while building the state of the
  pre_llm snapshot, which reads \<open>llmConfig.Model\<close>: the upstream is never called, nothing is
  defaulted or inferred, and the store is left as the session lookup left it (the trace
  still \<open>running\<close>).
\<close>

theorem omitted_config_panics:
  assumes id: "rq_id rq = Some sessionID"
    and body: "rq_body rq = Some req"
    and omitted: "cr_Provider req = []" "cr_Model req = []"
    and chat_trace: "start_trace env d sessionID ''simple_chat'' = (Some tr, d1)"
    and chat_session: "SessionService_Get (env_flt env) d1 sessionID = (Inr session, d2)"
    and stream_trace: "start_trace env d sessionID ''stream_chat'' = (Some tr', d1')"
    and stream_session: "SessionService_Get (env_flt env) d1' sessionID = (Inr session', d2')"
  shows "Chat c up env d rq = (RespPanic, d2)
     \<and> ChatStream c up env d rq = (RespPanic, [], d2')"
proof -
  have cfg: "build_llmConfig req = Inr None"
    using omitted by (rule build_llmConfig_omitted)
  have "Chat c up env d rq = (RespPanic, d2)"
    unfolding Chat_def id body option.case chat_trace prod.case chat_session sum.case cfg
      Let_def pre_llm_snapshot_nil_config outcome.case ..
  moreover have "ChatStream c up env d rq = (RespPanic, [], d2')"
    unfolding ChatStream_def id body option.case stream_trace prod.case stream_session
      sum.case cfg Let_def pre_llm_snapshot_nil_config outcome.case ..
  ultimately show ?thesis ..
qed

theorem omitted_config_panics_witness:
  "fst (Chat ex_service (ex_upstream ex_stream_ok) ex_env ex_turn_db ex_request_no_config)
     = RespPanic
   \<and> fst (ChatStream ex_service (ex_upstream ex_stream_ok) ex_env ex_turn_db
            ex_request_no_config) = RespPanic
   \<and> statuses (snd (Chat ex_service (ex_upstream ex_stream_ok) ex_env ex_turn_db
            ex_request_no_config)) = [(''trace-1'', TraceStatusRunning)]
   \<and> statuses (snd (snd (ChatStream ex_service (ex_upstream ex_stream_ok) ex_env ex_turn_db
            ex_request_no_config))) = [(''trace-1'', TraceStatusRunning)]"
proof -
  let ?req = "\<lparr>cr_Messages = [(''user'', ''hi'')],
       cr_Provider = [], cr_Model = [], cr_Temperature = 0, cr_MaxTokens = 0\<rparr>"
  let ?tr = "\<lambda>agent. \<lparr>trace_ID = ''trace-1'', trace_SessionID = ''s1'', trace_AgentName = agent,
       trace_Status = TraceStatusRunning, trace_StartedAt = 100, trace_EndedAt = None,
       trace_CostTokens = 0, trace_CostAPI = 0, trace_Metadata = JNull, trace_CreatedAt = 100\<rparr>"
  let ?d1 = "\<lambda>agent. called (TraceCreate ''trace-1'') (ex_turn_db\<lparr>db_traces := [?tr agent]\<rparr>)"
  let ?d2 = "\<lambda>agent. called (SessionGet ''s1'') (?d1 agent)"
  have a: "rq_id ex_request_no_config = Some ''s1''"
    by (simp add: ex_request_no_config_def)
  have b: "rq_body ex_request_no_config = Some ?req"
    by (simp add: ex_request_no_config_def)
  have o: "cr_Provider ?req = []" "cr_Model ?req = []"
    by simp_all
  have t: "start_trace ex_env ex_turn_db ''s1'' agent = (Some (?tr agent), ?d1 agent)" for agent
    by (simp add: start_trace_def StartTrace_def trace_Create_def ex_env_def ex_turn_db_def
          ex_uuid_def ex_clock_def Let_def)
  have g: "SessionService_Get (env_flt ex_env) (?d1 agent) ''s1'' = (Inr ex_session, ?d2 agent)"
    for agent
    by (simp add: SessionService_Get_def session_Get_def ex_env_def ex_turn_db_def
          ex_session_def called_def)
  have "Chat ex_service (ex_upstream ex_stream_ok) ex_env ex_turn_db ex_request_no_config
          = (RespPanic, ?d2 ''simple_chat'')
     \<and> ChatStream ex_service (ex_upstream ex_stream_ok) ex_env ex_turn_db ex_request_no_config
          = (RespPanic, [], ?d2 ''stream_chat'')"
    by (rule omitted_config_panics [OF a b o t g t g])
  then show ?thesis
    by (simp add: ex_turn_db_def)
qed

end
